theory Spec2Isabelle
  imports Complex_Main "HOL-Library.Word"
begin

section \<open>Native types\<close>

text \<open>
  The fixed-width integers of \<^verbatim>\<open>native_bridge.cpp\<close>. A signed integer is the same
  bit pattern as the unsigned one, read by \<open>sint\<close>.
\<close>

type_synonym int32_t = "32 word"
type_synonym uint32_t = "32 word"
type_synonym int64_t = "64 word"
type_synonym uint64_t = "64 word"

text \<open>
  A \<^verbatim>\<open>double\<close> at the level of its IEEE 754 value, with one NaN (the host's Number
  type has a single NaN as well). The finite values are rationals; the type does not
  single out the representable ones, since no operation below rounds: the conversions
  from \<^verbatim>\<open>bool\<close>, \<^verbatim>\<open>int32_t\<close> and \<^verbatim>\<open>uint32_t\<close> are exact.
\<close>

datatype double = DNaN | DPosInf | DNegInf | DNegZero | DNum rat

definition double_of_bool :: "bool \<Rightarrow> double" where
  "double_of_bool b = DNum (if b then 1 else 0)"

definition double_of_int32 :: "int32_t \<Rightarrow> double" where
  "double_of_int32 v = DNum (of_int (sint v))"

definition double_of_uint32 :: "uint32_t \<Rightarrow> double" where
  "double_of_uint32 v = DNum (of_int (uint v))"

text \<open>The integer part of a double, rounded towards zero; 0 for NaN and the infinities.\<close>

fun double_trunc :: "double \<Rightarrow> int" where
  "double_trunc (DNum r) = (if 0 \<le> r then \<lfloor>r\<rfloor> else \<lceil>r\<rceil>)"
| "double_trunc DNaN = 0"
| "double_trunc DPosInf = 0"
| "double_trunc DNegInf = 0"
| "double_trunc DNegZero = 0"

text \<open>A \<^verbatim>\<open>std::string\<close> is a sequence of bytes; \<open>NUL\<close> is the byte 0.\<close>

definition NUL :: char where
  "NUL = CHR 0x00"

text \<open>
  Modelled from the spec: \<^verbatim>\<open>MMBuffer\<close> (declared in \<^verbatim>\<open>MMBuffer.h\<close>, which is not
  among the sources), the spec's raw byte buffer. Of it the adapter uses the bytes at
  \<^verbatim>\<open>getPtr()\<close>, their number \<^verbatim>\<open>length()\<close>, and the flag that says whether the buffer
  owns a copy of the bytes.
\<close>

datatype MMBufferCopyFlag = MMBufferCopy | MMBufferNoCopy

record MMBuffer =
  getPtr :: "8 word list"
  copyFlag :: MMBufferCopyFlag

definition mmbuffer_length :: "MMBuffer \<Rightarrow> nat" where
  "mmbuffer_length b = length (getPtr b)"

text \<open>The default constructor \<^verbatim>\<open>MMBuffer()\<close>: no bytes.\<close>

definition MMBuffer_empty :: MMBuffer where
  "MMBuffer_empty = \<lparr>getPtr = [], copyFlag = MMBufferCopy\<rparr>"

section \<open>The host runtime (Node-API)\<close>

text \<open>
  The values of the host, as a \<^verbatim>\<open>napi_value\<close> handle shows them. \<open>NV_nullptr\<close> is the
  null handle, which is no host value. A string is held by its UTF-8 encoding, an
  \<^verbatim>\<open>ArrayBuffer\<close> by its bytes; any other object, a function and a symbol are held
  by an identity.
\<close>

datatype napi_value =
    NV_nullptr
  | NV_undefined
  | NV_null
  | NV_boolean bool
  | NV_number double
  | NV_bigint int
  | NV_string string
  | NV_arraybuffer "8 word list"
  | NV_object nat
  | NV_function nat
  | NV_symbol nat

datatype napi_valuetype =
    napi_undefined | napi_null | napi_boolean | napi_number | napi_string | napi_symbol
  | napi_object | napi_function | napi_bigint

datatype napi_status =
    napi_ok | napi_invalid_arg | napi_string_expected | napi_number_expected
  | napi_boolean_expected | napi_bigint_expected | napi_pending_exception

text \<open>
  The state of a \<^verbatim>\<open>napi_env\<close> that the adapter reads and writes: whether a host
  exception is pending. Of the calls of the host modelled below,
  \<^verbatim>\<open>napi_coerce_to_bool\<close> refuses to run while an exception is pending; the others do
  not look at it.
\<close>

record napi_env =
  exception_pending :: bool

definition napi_throw_error :: "napi_env \<Rightarrow> napi_env" where
  "napi_throw_error env = env\<lparr>exception_pending := True\<rparr>"

text \<open>
  A Node-API call that returns a value through an out-parameter gives its status and,
  when it wrote the out-parameter, the value written. \<open>stored u r\<close> is what the
  caller's local variable holds after the call, \<open>u\<close> being what it held before: a
  local declared without an initialiser keeps this indeterminate content when the call
  fails.
\<close>

type_synonym 'a napi_result = "napi_status \<times> 'a option"

definition stored :: "'a \<Rightarrow> 'a napi_result \<Rightarrow> 'a" where
  "stored u r = (case snd r of Some v \<Rightarrow> v | None \<Rightarrow> u)"

fun napi_typeof :: "napi_value \<Rightarrow> napi_valuetype napi_result" where
  "napi_typeof NV_nullptr = (napi_invalid_arg, None)"
| "napi_typeof NV_undefined = (napi_ok, Some napi_undefined)"
| "napi_typeof NV_null = (napi_ok, Some napi_null)"
| "napi_typeof (NV_boolean b) = (napi_ok, Some napi_boolean)"
| "napi_typeof (NV_number d) = (napi_ok, Some napi_number)"
| "napi_typeof (NV_bigint n) = (napi_ok, Some napi_bigint)"
| "napi_typeof (NV_string s) = (napi_ok, Some napi_string)"
| "napi_typeof (NV_arraybuffer bs) = (napi_ok, Some napi_object)"
| "napi_typeof (NV_object i) = (napi_ok, Some napi_object)"
| "napi_typeof (NV_function i) = (napi_ok, Some napi_function)"
| "napi_typeof (NV_symbol i) = (napi_ok, Some napi_symbol)"

text \<open>The \<^verbatim>\<open>napi_create_*\<close> calls succeed on a live environment and always write the result.\<close>

definition napi_create_double :: "double \<Rightarrow> napi_value" where
  "napi_create_double d = NV_number d"

definition napi_create_int32 :: "int32_t \<Rightarrow> napi_value" where
  "napi_create_int32 v = NV_number (double_of_int32 v)"

definition napi_create_uint32 :: "uint32_t \<Rightarrow> napi_value" where
  "napi_create_uint32 v = NV_number (double_of_uint32 v)"

definition napi_create_bigint_int64 :: "int64_t \<Rightarrow> napi_value" where
  "napi_create_bigint_int64 v = NV_bigint (sint v)"

definition napi_create_bigint_uint64 :: "uint64_t \<Rightarrow> napi_value" where
  "napi_create_bigint_uint64 v = NV_bigint (uint v)"

text \<open>
  \<^verbatim>\<open>napi_create_string_utf8\<close> with an explicit length. The bytes are taken to be
  well-formed UTF-8, which the host keeps; what the host substitutes for an ill-formed
  sequence is not modelled.
\<close>

definition napi_create_string_utf8 :: "string \<Rightarrow> napi_value" where
  "napi_create_string_utf8 s = NV_string s"

text \<open>\<^verbatim>\<open>napi_create_arraybuffer\<close>: a new buffer of \<open>n\<close> zero bytes, and its data.\<close>

definition napi_create_arraybuffer :: "nat \<Rightarrow> napi_status \<times> 8 word list" where
  "napi_create_arraybuffer n = (napi_ok, replicate n 0)"

definition memcpy :: "'a list \<Rightarrow> 'a list \<Rightarrow> nat \<Rightarrow> 'a list" where
  "memcpy dst src n = take n src @ drop n dst"

text \<open>The host's ToBoolean, on a handle.\<close>

fun ToBoolean :: "napi_value \<Rightarrow> napi_value napi_result" where
  "ToBoolean NV_nullptr = (napi_invalid_arg, None)"
| "ToBoolean NV_undefined = (napi_ok, Some (NV_boolean False))"
| "ToBoolean NV_null = (napi_ok, Some (NV_boolean False))"
| "ToBoolean (NV_boolean b) = (napi_ok, Some (NV_boolean b))"
| "ToBoolean (NV_number d) =
     (napi_ok, Some (NV_boolean (d \<noteq> DNum 0 \<and> d \<noteq> DNegZero \<and> d \<noteq> DNaN)))"
| "ToBoolean (NV_bigint n) = (napi_ok, Some (NV_boolean (n \<noteq> 0)))"
| "ToBoolean (NV_string s) = (napi_ok, Some (NV_boolean (s \<noteq> [])))"
| "ToBoolean (NV_arraybuffer bs) = (napi_ok, Some (NV_boolean True))"
| "ToBoolean (NV_object i) = (napi_ok, Some (NV_boolean True))"
| "ToBoolean (NV_function i) = (napi_ok, Some (NV_boolean True))"
| "ToBoolean (NV_symbol i) = (napi_ok, Some (NV_boolean True))"

text \<open>
  \<^verbatim>\<open>napi_coerce_to_bool\<close>: while an exception is pending the call returns
  \<^verbatim>\<open>napi_pending_exception\<close> and writes nothing; otherwise it is ToBoolean.
\<close>

definition napi_coerce_to_bool :: "napi_env \<Rightarrow> napi_value \<Rightarrow> napi_value napi_result" where
  "napi_coerce_to_bool env v =
     (if exception_pending env then (napi_pending_exception, None) else ToBoolean v)"

text \<open>
  The \<^verbatim>\<open>napi_get_value_*\<close> calls write the out-parameter only for a host value of the
  expected type. A Number is converted to 32 bits as the host's ToInt32 and ToUint32 do
  (the integer part, modulo \<open>2^32\<close>; 0 when not finite); a BigInt is cut to its low
  64 bits.
\<close>

fun napi_get_value_bool :: "napi_value \<Rightarrow> bool napi_result" where
  "napi_get_value_bool (NV_boolean b) = (napi_ok, Some b)"
| "napi_get_value_bool NV_nullptr = (napi_invalid_arg, None)"
| "napi_get_value_bool v = (napi_boolean_expected, None)"

fun napi_get_value_int32 :: "napi_value \<Rightarrow> int32_t napi_result" where
  "napi_get_value_int32 (NV_number d) = (napi_ok, Some (word_of_int (double_trunc d)))"
| "napi_get_value_int32 NV_nullptr = (napi_invalid_arg, None)"
| "napi_get_value_int32 v = (napi_number_expected, None)"

fun napi_get_value_uint32 :: "napi_value \<Rightarrow> uint32_t napi_result" where
  "napi_get_value_uint32 (NV_number d) = (napi_ok, Some (word_of_int (double_trunc d)))"
| "napi_get_value_uint32 NV_nullptr = (napi_invalid_arg, None)"
| "napi_get_value_uint32 v = (napi_number_expected, None)"

fun napi_get_value_double :: "napi_value \<Rightarrow> double napi_result" where
  "napi_get_value_double (NV_number d) = (napi_ok, Some d)"
| "napi_get_value_double NV_nullptr = (napi_invalid_arg, None)"
| "napi_get_value_double v = (napi_number_expected, None)"

fun napi_get_value_bigint_int64 :: "napi_value \<Rightarrow> int64_t napi_result" where
  "napi_get_value_bigint_int64 (NV_bigint n) = (napi_ok, Some (word_of_int n))"
| "napi_get_value_bigint_int64 NV_nullptr = (napi_invalid_arg, None)"
| "napi_get_value_bigint_int64 v = (napi_bigint_expected, None)"

fun napi_get_value_bigint_uint64 :: "napi_value \<Rightarrow> uint64_t napi_result" where
  "napi_get_value_bigint_uint64 (NV_bigint n) = (napi_ok, Some (word_of_int n))"
| "napi_get_value_bigint_uint64 NV_nullptr = (napi_invalid_arg, None)"
| "napi_get_value_bigint_uint64 v = (napi_bigint_expected, None)"

text \<open>
  \<^verbatim>\<open>napi_get_value_string_utf8\<close> with a null buffer: the length of the string in
  bytes, without the terminator.
\<close>

fun napi_get_value_string_utf8_length :: "napi_value \<Rightarrow> nat napi_result" where
  "napi_get_value_string_utf8_length (NV_string s) = (napi_ok, Some (length s))"
| "napi_get_value_string_utf8_length NV_nullptr = (napi_invalid_arg, None)"
| "napi_get_value_string_utf8_length v = (napi_string_expected, None)"

text \<open>
  The characters of a UTF-8 string: a character is a byte that is no continuation byte
  (\<open>0x80\<close> to \<open>0xBF\<close>) with the continuation bytes that follow it. \<open>utf8_take n s\<close>
  is the longest prefix of \<open>s\<close> made of whole characters that has at most \<open>n\<close>
  bytes.
\<close>

definition is_continuation :: "char \<Rightarrow> bool" where
  "is_continuation c = (128 \<le> (of_char c :: nat) \<and> (of_char c :: nat) < 192)"

fun utf8_chars :: "string \<Rightarrow> string list" where
  "utf8_chars [] = []"
| "utf8_chars [c] = [[c]]"
| "utf8_chars (c # d # ds) =
     (if is_continuation d
      then (case utf8_chars (d # ds) of [] \<Rightarrow> [[c]] | ch # chs \<Rightarrow> (c # ch) # chs)
      else [c] # utf8_chars (d # ds))"

fun take_chars :: "nat \<Rightarrow> string list \<Rightarrow> string list" where
  "take_chars n [] = []"
| "take_chars n (ch # chs) =
     (if length ch \<le> n then ch # take_chars (n - length ch) chs else [])"

definition utf8_take :: "nat \<Rightarrow> string \<Rightarrow> string" where
  "utf8_take n s = concat (take_chars n (utf8_chars s))"

text \<open>
  \<^verbatim>\<open>napi_get_value_string_utf8\<close> with a buffer \<open>buf\<close> of \<open>bufsize\<close> bytes: the whole
  characters of the string that fit in \<open>bufsize - 1\<close> bytes are copied to the front of
  the buffer and a terminating \<open>NUL\<close> is written after them, so a buffer that is too
  small receives a truncated string; the rest of the buffer is left as it was. The
  result is the buffer after the call.
\<close>

fun napi_get_value_string_utf8 :: "napi_value \<Rightarrow> string \<Rightarrow> nat \<Rightarrow> napi_status \<times> string" where
  "napi_get_value_string_utf8 (NV_string s) buf bufsize =
     (if bufsize \<noteq> 0
      then (napi_ok,
            utf8_take (bufsize - 1) s @ [NUL] @ drop (length (utf8_take (bufsize - 1) s) + 1) buf)
      else (napi_ok, buf))"
| "napi_get_value_string_utf8 NV_nullptr buf bufsize = (napi_invalid_arg, buf)"
| "napi_get_value_string_utf8 v buf bufsize = (napi_string_expected, buf)"

fun napi_get_arraybuffer_info :: "napi_value \<Rightarrow> napi_status \<times> (8 word list) option" where
  "napi_get_arraybuffer_info (NV_arraybuffer bs) = (napi_ok, Some bs)"
| "napi_get_arraybuffer_info v = (napi_invalid_arg, None)"

text \<open>
  \<^verbatim>\<open>napi_callback_info\<close> is the list of arguments the host passed.
  \<^verbatim>\<open>napi_get_cb_info\<close> copies the first \<open>argc\<close> of them and fills what is missing
  with undefined.
\<close>

type_synonym napi_callback_info = "napi_value list"

definition napi_get_cb_info :: "napi_callback_info \<Rightarrow> nat \<Rightarrow> napi_status \<times> napi_value list" where
  "napi_get_cb_info info argc = (napi_ok, take argc (info @ replicate argc NV_undefined))"

section \<open>The conversion layer\<close>

text \<open>
  The macro \<^verbatim>\<open>NAPI_CALL_RET\<close>: when the status is not \<^verbatim>\<open>napi_ok\<close> and no exception is
  pending, it throws and makes the enclosing function return; when an exception is
  already pending, the function goes on. The result says whether the function returns,
  and gives the environment after the macro.
\<close>

definition NAPI_CALL_RET :: "napi_status \<Rightarrow> napi_env \<Rightarrow> bool \<times> napi_env" where
  "NAPI_CALL_RET status env =
     (if status \<noteq> napi_ok
      then (if \<not> exception_pending env then (True, napi_throw_error env) else (False, env))
      else (False, env))"

definition IsNValueUndefined :: "napi_value \<Rightarrow> bool" where
  "IsNValueUndefined v =
     (case napi_typeof v of (status, t) \<Rightarrow> status = napi_ok \<and> t = Some napi_undefined)"

text \<open>
  What the C++ library fixes: \<open>string_capacity n\<close> is the \<^verbatim>\<open>capacity()\<close> of a
  \<^verbatim>\<open>std::string\<close> that was default-constructed and then resized to \<open>n\<close>. The language
  promises no more than \<open>n \<le> string_capacity n\<close>.
\<close>

record platform =
  string_capacity :: "nat \<Rightarrow> nat"

text \<open>\<^verbatim>\<open>std::string::resize\<close>: cut, or fill with zero bytes.\<close>

definition resize :: "string \<Rightarrow> nat \<Rightarrow> string" where
  "resize s n = take n s @ replicate (n - length s) NUL"

text \<open>
  \<open>NValueToString p u env value maybeUndefined\<close>; \<open>u\<close> is the indeterminate content
  of the local \<^verbatim>\<open>size\<close>. The storage of \<^verbatim>\<open>result\<close> is its \<open>size\<close> bytes, the
  terminator, and the spare bytes up to the capacity; the string read back is the first
  \<open>size\<close> bytes of the storage.
\<close>

definition NValueToString ::
  "platform \<Rightarrow> nat \<Rightarrow> napi_env \<Rightarrow> napi_value \<Rightarrow> bool \<Rightarrow> string \<times> napi_env" where
  "NValueToString p u env v maybeUndefined =
     (if maybeUndefined \<and> IsNValueUndefined v then ([], env)
      else
        let r1 = napi_get_value_string_utf8_length v;
            (ret1, env1) = NAPI_CALL_RET (fst r1) env
        in if ret1 then ([], env1)
           else
             let size = stored u r1;
                 result = resize [] size;
                 capacity = string_capacity p size;
                 (status2, storage) =
                   napi_get_value_string_utf8 v
                     (result @ replicate (capacity + 1 - size) NUL) capacity;
                 (ret2, env2) = NAPI_CALL_RET status2 env1
             in if ret2 then ([], env2) else (take size storage, env2))"

definition StringToNValue :: "string \<Rightarrow> napi_value" where
  "StringToNValue s = napi_create_string_utf8 s"

definition NValueToMMBuffer :: "napi_value \<Rightarrow> bool \<Rightarrow> MMBuffer" where
  "NValueToMMBuffer v maybeUndefined =
     (if maybeUndefined \<and> IsNValueUndefined v then MMBuffer_empty
      else
        (case napi_get_arraybuffer_info v of
           (status, Some data) \<Rightarrow>
             if status = napi_ok then \<lparr>getPtr = data, copyFlag = MMBufferNoCopy\<rparr>
             else MMBuffer_empty
         | (status, None) \<Rightarrow> MMBuffer_empty))"

definition MMBufferToNValue :: "MMBuffer \<Rightarrow> napi_value" where
  "MMBufferToNValue b =
     (case napi_create_arraybuffer (mmbuffer_length b) of
        (status, data) \<Rightarrow>
          if status = napi_ok
          then NV_arraybuffer (memcpy data (getPtr b) (mmbuffer_length b))
          else NV_nullptr)"

text \<open>
  \<^verbatim>\<open>BoolToNValue\<close> makes a Number of the bool and coerces it to a host boolean. The
  status of the coercion is not looked at: \<open>u\<close> is the indeterminate content of the
  local \<^verbatim>\<open>resultBool\<close>, which the function returns when the coercion did not write
  it.
\<close>

definition BoolToNValue :: "napi_value \<Rightarrow> napi_env \<Rightarrow> bool \<Rightarrow> napi_value" where
  "BoolToNValue u env b =
     (let result = napi_create_double (double_of_bool b)
      in stored u (napi_coerce_to_bool env result))"

text \<open>
  In each \<^verbatim>\<open>NValueTo*\<close> below, \<open>u\<close> is the indeterminate content of the local
  \<^verbatim>\<open>result\<close>, which the function returns when the host value has another type: the
  status of the call is not looked at.
\<close>

definition NValueToBool :: "bool \<Rightarrow> napi_value \<Rightarrow> bool" where
  "NValueToBool u v = stored u (napi_get_value_bool v)"

definition Int32ToNValue :: "int32_t \<Rightarrow> napi_value" where
  "Int32ToNValue v = napi_create_int32 v"

definition NValueToInt32 :: "int32_t \<Rightarrow> napi_value \<Rightarrow> int32_t" where
  "NValueToInt32 u v = stored u (napi_get_value_int32 v)"

definition UInt32ToNValue :: "uint32_t \<Rightarrow> napi_value" where
  "UInt32ToNValue v = napi_create_uint32 v"

definition NValueToUInt32 :: "uint32_t \<Rightarrow> napi_value \<Rightarrow> uint32_t" where
  "NValueToUInt32 u v = stored u (napi_get_value_uint32 v)"

definition DoubleToNValue :: "double \<Rightarrow> napi_value" where
  "DoubleToNValue v = napi_create_double v"

definition NValueToDouble :: "double \<Rightarrow> napi_value \<Rightarrow> double" where
  "NValueToDouble u v = stored u (napi_get_value_double v)"

definition Int64ToNValue :: "int64_t \<Rightarrow> napi_value" where
  "Int64ToNValue v = napi_create_bigint_int64 v"

definition NValueToInt64 :: "int64_t \<Rightarrow> napi_value \<Rightarrow> int64_t" where
  "NValueToInt64 u v = stored u (napi_get_value_bigint_int64 v)"

definition UInt64ToNValue :: "uint64_t \<Rightarrow> napi_value" where
  "UInt64ToNValue v = napi_create_bigint_uint64 v"

definition NValueToUInt64 :: "uint64_t \<Rightarrow> napi_value \<Rightarrow> uint64_t" where
  "NValueToUInt64 u v = stored u (napi_get_value_bigint_uint64 v)"

section \<open>The wrapped engine\<close>

text \<open>
  The wrapped engine (class \<^verbatim>\<open>MMKV\<close>, declared in \<^verbatim>\<open>MMKV.h\<close>) is not among
  the sources, and the spec leaves its behaviour open. It is a parameter of the model:
  every operation the adapter calls is any function of the instance (the pointer, as a
  64-bit number), the arguments and the engine's state \<open>'st\<close>, giving the result and
  the state after the call. The two overloads of \<^verbatim>\<open>set\<close> for a
  type are one field; the expiration is \<open>None\<close> for the overload without it.
  \<^verbatim>\<open>getString\<close> and \<^verbatim>\<open>getBytes\<close> give their success flag and what they wrote to the
  out-parameter.
\<close>

record 'st engine =
  defaultMMKV :: "int32_t \<Rightarrow> string option \<Rightarrow> 'st \<Rightarrow> uint64_t \<times> 'st"
  set_bool :: "uint64_t \<Rightarrow> bool \<Rightarrow> string \<Rightarrow> uint32_t option \<Rightarrow> 'st \<Rightarrow> bool \<times> 'st"
  set_int32 :: "uint64_t \<Rightarrow> int32_t \<Rightarrow> string \<Rightarrow> uint32_t option \<Rightarrow> 'st \<Rightarrow> bool \<times> 'st"
  set_uint32 :: "uint64_t \<Rightarrow> uint32_t \<Rightarrow> string \<Rightarrow> uint32_t option \<Rightarrow> 'st \<Rightarrow> bool \<times> 'st"
  set_int64 :: "uint64_t \<Rightarrow> int64_t \<Rightarrow> string \<Rightarrow> uint32_t option \<Rightarrow> 'st \<Rightarrow> bool \<times> 'st"
  set_uint64 :: "uint64_t \<Rightarrow> uint64_t \<Rightarrow> string \<Rightarrow> uint32_t option \<Rightarrow> 'st \<Rightarrow> bool \<times> 'st"
  set_double :: "uint64_t \<Rightarrow> double \<Rightarrow> string \<Rightarrow> uint32_t option \<Rightarrow> 'st \<Rightarrow> bool \<times> 'st"
  set_string :: "uint64_t \<Rightarrow> string \<Rightarrow> string \<Rightarrow> uint32_t option \<Rightarrow> 'st \<Rightarrow> bool \<times> 'st"
  set_bytes :: "uint64_t \<Rightarrow> MMBuffer \<Rightarrow> string \<Rightarrow> uint32_t option \<Rightarrow> 'st \<Rightarrow> bool \<times> 'st"
  getBool :: "uint64_t \<Rightarrow> string \<Rightarrow> bool \<Rightarrow> 'st \<Rightarrow> bool \<times> 'st"
  getInt32 :: "uint64_t \<Rightarrow> string \<Rightarrow> int32_t \<Rightarrow> 'st \<Rightarrow> int32_t \<times> 'st"
  getUInt32 :: "uint64_t \<Rightarrow> string \<Rightarrow> uint32_t \<Rightarrow> 'st \<Rightarrow> uint32_t \<times> 'st"
  getInt64 :: "uint64_t \<Rightarrow> string \<Rightarrow> int64_t \<Rightarrow> 'st \<Rightarrow> int64_t \<times> 'st"
  getUInt64 :: "uint64_t \<Rightarrow> string \<Rightarrow> uint64_t \<Rightarrow> 'st \<Rightarrow> uint64_t \<times> 'st"
  getDouble :: "uint64_t \<Rightarrow> string \<Rightarrow> double \<Rightarrow> 'st \<Rightarrow> double \<times> 'st"
  getString :: "uint64_t \<Rightarrow> string \<Rightarrow> 'st \<Rightarrow> (bool \<times> string) \<times> 'st"
  getBytes :: "uint64_t \<Rightarrow> string \<Rightarrow> 'st \<Rightarrow> (bool \<times> MMBuffer) \<times> 'st"

section \<open>The exported functions\<close>

text \<open>
  The indeterminate contents of the locals that an exported function, or a conversion it
  calls, declares without an initialiser: \<^verbatim>\<open>result\<close> of the conversion of the handle,
  of the value (one field for each type) and of the expiration, \<^verbatim>\<open>resultBool\<close> of
  \<^verbatim>\<open>BoolToNValue\<close>, \<^verbatim>\<open>size\<close> of the conversion of the key, of a string value and of
  the crypt key, and \<^verbatim>\<open>mode\<close>.
\<close>

record indeterminate =
  ind_handle :: uint64_t
  ind_resultBool :: napi_value
  ind_key_size :: nat
  ind_bool :: bool
  ind_int32 :: int32_t
  ind_uint32 :: uint32_t
  ind_int64 :: int64_t
  ind_uint64 :: uint64_t
  ind_double :: double
  ind_value_size :: nat
  ind_expiration :: uint32_t
  ind_mode :: int32_t
  ind_crypt_size :: nat

text \<open>
  An exported function takes the engine, the platform, the indeterminate locals, the
  environment, the arguments of the host and the engine's state, and gives the host
  value it returns, the environment and the engine's state after the call.
  \<^verbatim>\<open>NAPI_CALL\<close> is \<^verbatim>\<open>NAPI_CALL_RET\<close> returning the null handle.
\<close>

definition getDefaultMMKV ::
  "'st engine \<Rightarrow> platform \<Rightarrow> indeterminate \<Rightarrow> napi_env \<Rightarrow> napi_callback_info \<Rightarrow> 'st
     \<Rightarrow> napi_value \<times> napi_env \<times> 'st" where
  "getDefaultMMKV eng p g env info st =
     (let (status, args) = napi_get_cb_info info 2;
          (returns, env0) = NAPI_CALL_RET status env
      in if returns then (NV_nullptr, env0, st)
         else
           let r = napi_get_value_int32 (args ! 0);
               (returns1, env1) = NAPI_CALL_RET (fst r) env0
           in if returns1 then (NV_nullptr, env1, st)
              else
                let mode = stored (ind_mode g) r;
                    (crypt, env2) = NValueToString p (ind_crypt_size g) env1 (args ! 1) True;
                    (kv, st1) =
                      (if length crypt > 0 then defaultMMKV eng mode (Some crypt) st
                       else (0, st));
                    (kv', st2) =
                      (if kv = 0 then defaultMMKV eng mode None st1 else (kv, st1))
                in (UInt64ToNValue kv', env2, st2))"

definition encodeBool ::
  "'st engine \<Rightarrow> platform \<Rightarrow> indeterminate \<Rightarrow> napi_env \<Rightarrow> napi_callback_info \<Rightarrow> 'st
     \<Rightarrow> napi_value \<times> napi_env \<times> 'st" where
  "encodeBool eng p g env info st =
     (let (status, args) = napi_get_cb_info info 4;
          (returns, env0) = NAPI_CALL_RET status env
      in if returns then (NV_nullptr, env0, st)
         else
           let handle = NValueToUInt64 (ind_handle g) (args ! 0);
               (key, env1) = NValueToString p (ind_key_size g) env0 (args ! 1) False;
               kv = handle
           in if kv \<noteq> 0 \<and> length key > 0
              then
                let value = NValueToBool (ind_bool g) (args ! 2)
                in if IsNValueUndefined (args ! 3)
                   then
                     let (ret, st1) = set_bool eng kv value key None st
                     in (BoolToNValue (ind_resultBool g) env1 ret, env1, st1)
                   else
                     let expiration = NValueToUInt32 (ind_expiration g) (args ! 3);
                         (ret, st1) = set_bool eng kv value key (Some expiration) st
                     in (BoolToNValue (ind_resultBool g) env1 ret, env1, st1)
              else (BoolToNValue (ind_resultBool g) env1 False, env1, st))"

definition decodeBool ::
  "'st engine \<Rightarrow> platform \<Rightarrow> indeterminate \<Rightarrow> napi_env \<Rightarrow> napi_callback_info \<Rightarrow> 'st
     \<Rightarrow> napi_value \<times> napi_env \<times> 'st" where
  "decodeBool eng p g env info st =
     (let (status, args) = napi_get_cb_info info 3;
          (returns, env0) = NAPI_CALL_RET status env
      in if returns then (NV_nullptr, env0, st)
         else
           let handle = NValueToUInt64 (ind_handle g) (args ! 0);
               (key, env1) = NValueToString p (ind_key_size g) env0 (args ! 1) False;
               defaultValue = NValueToBool (ind_bool g) (args ! 2);
               kv = handle
           in if kv \<noteq> 0 \<and> length key > 0
              then
                let (result, st1) = getBool eng kv key defaultValue st
                in (BoolToNValue (ind_resultBool g) env1 result, env1, st1)
              else (BoolToNValue (ind_resultBool g) env1 defaultValue, env1, st))"

definition encodeInt32 ::
  "'st engine \<Rightarrow> platform \<Rightarrow> indeterminate \<Rightarrow> napi_env \<Rightarrow> napi_callback_info \<Rightarrow> 'st
     \<Rightarrow> napi_value \<times> napi_env \<times> 'st" where
  "encodeInt32 eng p g env info st =
     (let (status, args) = napi_get_cb_info info 4;
          (returns, env0) = NAPI_CALL_RET status env
      in if returns then (NV_nullptr, env0, st)
         else
           let handle = NValueToUInt64 (ind_handle g) (args ! 0);
               (key, env1) = NValueToString p (ind_key_size g) env0 (args ! 1) False;
               kv = handle
           in if kv \<noteq> 0 \<and> length key > 0
              then
                let value = NValueToInt32 (ind_int32 g) (args ! 2)
                in if IsNValueUndefined (args ! 3)
                   then
                     let (ret, st1) = set_int32 eng kv value key None st
                     in (BoolToNValue (ind_resultBool g) env1 ret, env1, st1)
                   else
                     let expiration = NValueToUInt32 (ind_expiration g) (args ! 3);
                         (ret, st1) = set_int32 eng kv value key (Some expiration) st
                     in (BoolToNValue (ind_resultBool g) env1 ret, env1, st1)
              else (BoolToNValue (ind_resultBool g) env1 False, env1, st))"

definition decodeInt32 ::
  "'st engine \<Rightarrow> platform \<Rightarrow> indeterminate \<Rightarrow> napi_env \<Rightarrow> napi_callback_info \<Rightarrow> 'st
     \<Rightarrow> napi_value \<times> napi_env \<times> 'st" where
  "decodeInt32 eng p g env info st =
     (let (status, args) = napi_get_cb_info info 3;
          (returns, env0) = NAPI_CALL_RET status env
      in if returns then (NV_nullptr, env0, st)
         else
           let handle = NValueToUInt64 (ind_handle g) (args ! 0);
               (key, env1) = NValueToString p (ind_key_size g) env0 (args ! 1) False;
               defaultValue = NValueToInt32 (ind_int32 g) (args ! 2);
               kv = handle
           in if kv \<noteq> 0 \<and> length key > 0
              then
                let (result, st1) = getInt32 eng kv key defaultValue st
                in (Int32ToNValue result, env1, st1)
              else (Int32ToNValue defaultValue, env1, st))"

definition encodeUInt32 ::
  "'st engine \<Rightarrow> platform \<Rightarrow> indeterminate \<Rightarrow> napi_env \<Rightarrow> napi_callback_info \<Rightarrow> 'st
     \<Rightarrow> napi_value \<times> napi_env \<times> 'st" where
  "encodeUInt32 eng p g env info st =
     (let (status, args) = napi_get_cb_info info 4;
          (returns, env0) = NAPI_CALL_RET status env
      in if returns then (NV_nullptr, env0, st)
         else
           let handle = NValueToUInt64 (ind_handle g) (args ! 0);
               (key, env1) = NValueToString p (ind_key_size g) env0 (args ! 1) False;
               kv = handle
           in if kv \<noteq> 0 \<and> length key > 0
              then
                let value = NValueToUInt32 (ind_uint32 g) (args ! 2)
                in if IsNValueUndefined (args ! 3)
                   then
                     let (ret, st1) = set_uint32 eng kv value key None st
                     in (BoolToNValue (ind_resultBool g) env1 ret, env1, st1)
                   else
                     let expiration = NValueToUInt32 (ind_expiration g) (args ! 3);
                         (ret, st1) = set_uint32 eng kv value key (Some expiration) st
                     in (BoolToNValue (ind_resultBool g) env1 ret, env1, st1)
              else (BoolToNValue (ind_resultBool g) env1 False, env1, st))"

definition decodeUInt32 ::
  "'st engine \<Rightarrow> platform \<Rightarrow> indeterminate \<Rightarrow> napi_env \<Rightarrow> napi_callback_info \<Rightarrow> 'st
     \<Rightarrow> napi_value \<times> napi_env \<times> 'st" where
  "decodeUInt32 eng p g env info st =
     (let (status, args) = napi_get_cb_info info 3;
          (returns, env0) = NAPI_CALL_RET status env
      in if returns then (NV_nullptr, env0, st)
         else
           let handle = NValueToUInt64 (ind_handle g) (args ! 0);
               (key, env1) = NValueToString p (ind_key_size g) env0 (args ! 1) False;
               defaultValue = NValueToUInt32 (ind_uint32 g) (args ! 2);
               kv = handle
           in if kv \<noteq> 0 \<and> length key > 0
              then
                let (result, st1) = getUInt32 eng kv key defaultValue st
                in (UInt32ToNValue result, env1, st1)
              else (UInt32ToNValue defaultValue, env1, st))"

definition encodeInt64 ::
  "'st engine \<Rightarrow> platform \<Rightarrow> indeterminate \<Rightarrow> napi_env \<Rightarrow> napi_callback_info \<Rightarrow> 'st
     \<Rightarrow> napi_value \<times> napi_env \<times> 'st" where
  "encodeInt64 eng p g env info st =
     (let (status, args) = napi_get_cb_info info 4;
          (returns, env0) = NAPI_CALL_RET status env
      in if returns then (NV_nullptr, env0, st)
         else
           let handle = NValueToUInt64 (ind_handle g) (args ! 0);
               (key, env1) = NValueToString p (ind_key_size g) env0 (args ! 1) False;
               kv = handle
           in if kv \<noteq> 0 \<and> length key > 0
              then
                let value = NValueToInt64 (ind_int64 g) (args ! 2)
                in if IsNValueUndefined (args ! 3)
                   then
                     let (ret, st1) = set_int64 eng kv value key None st
                     in (BoolToNValue (ind_resultBool g) env1 ret, env1, st1)
                   else
                     let expiration = NValueToUInt32 (ind_expiration g) (args ! 3);
                         (ret, st1) = set_int64 eng kv value key (Some expiration) st
                     in (BoolToNValue (ind_resultBool g) env1 ret, env1, st1)
              else (BoolToNValue (ind_resultBool g) env1 False, env1, st))"

definition decodeInt64 ::
  "'st engine \<Rightarrow> platform \<Rightarrow> indeterminate \<Rightarrow> napi_env \<Rightarrow> napi_callback_info \<Rightarrow> 'st
     \<Rightarrow> napi_value \<times> napi_env \<times> 'st" where
  "decodeInt64 eng p g env info st =
     (let (status, args) = napi_get_cb_info info 3;
          (returns, env0) = NAPI_CALL_RET status env
      in if returns then (NV_nullptr, env0, st)
         else
           let handle = NValueToUInt64 (ind_handle g) (args ! 0);
               (key, env1) = NValueToString p (ind_key_size g) env0 (args ! 1) False;
               defaultValue = NValueToInt64 (ind_int64 g) (args ! 2);
               kv = handle
           in if kv \<noteq> 0 \<and> length key > 0
              then
                let (result, st1) = getInt64 eng kv key defaultValue st
                in (Int64ToNValue result, env1, st1)
              else (Int64ToNValue defaultValue, env1, st))"

definition encodeUInt64 ::
  "'st engine \<Rightarrow> platform \<Rightarrow> indeterminate \<Rightarrow> napi_env \<Rightarrow> napi_callback_info \<Rightarrow> 'st
     \<Rightarrow> napi_value \<times> napi_env \<times> 'st" where
  "encodeUInt64 eng p g env info st =
     (let (status, args) = napi_get_cb_info info 4;
          (returns, env0) = NAPI_CALL_RET status env
      in if returns then (NV_nullptr, env0, st)
         else
           let handle = NValueToUInt64 (ind_handle g) (args ! 0);
               (key, env1) = NValueToString p (ind_key_size g) env0 (args ! 1) False;
               kv = handle
           in if kv \<noteq> 0 \<and> length key > 0
              then
                let value = NValueToUInt64 (ind_uint64 g) (args ! 2)
                in if IsNValueUndefined (args ! 3)
                   then
                     let (ret, st1) = set_uint64 eng kv value key None st
                     in (BoolToNValue (ind_resultBool g) env1 ret, env1, st1)
                   else
                     let expiration = NValueToUInt32 (ind_expiration g) (args ! 3);
                         (ret, st1) = set_uint64 eng kv value key (Some expiration) st
                     in (BoolToNValue (ind_resultBool g) env1 ret, env1, st1)
              else (BoolToNValue (ind_resultBool g) env1 False, env1, st))"

definition decodeUInt64 ::
  "'st engine \<Rightarrow> platform \<Rightarrow> indeterminate \<Rightarrow> napi_env \<Rightarrow> napi_callback_info \<Rightarrow> 'st
     \<Rightarrow> napi_value \<times> napi_env \<times> 'st" where
  "decodeUInt64 eng p g env info st =
     (let (status, args) = napi_get_cb_info info 3;
          (returns, env0) = NAPI_CALL_RET status env
      in if returns then (NV_nullptr, env0, st)
         else
           let handle = NValueToUInt64 (ind_handle g) (args ! 0);
               (key, env1) = NValueToString p (ind_key_size g) env0 (args ! 1) False;
               defaultValue = NValueToUInt64 (ind_uint64 g) (args ! 2);
               kv = handle
           in if kv \<noteq> 0 \<and> length key > 0
              then
                let (result, st1) = getUInt64 eng kv key defaultValue st
                in (UInt64ToNValue result, env1, st1)
              else (UInt64ToNValue defaultValue, env1, st))"

definition encodeDouble ::
  "'st engine \<Rightarrow> platform \<Rightarrow> indeterminate \<Rightarrow> napi_env \<Rightarrow> napi_callback_info \<Rightarrow> 'st
     \<Rightarrow> napi_value \<times> napi_env \<times> 'st" where
  "encodeDouble eng p g env info st =
     (let (status, args) = napi_get_cb_info info 4;
          (returns, env0) = NAPI_CALL_RET status env
      in if returns then (NV_nullptr, env0, st)
         else
           let handle = NValueToUInt64 (ind_handle g) (args ! 0);
               (key, env1) = NValueToString p (ind_key_size g) env0 (args ! 1) False;
               kv = handle
           in if kv \<noteq> 0 \<and> length key > 0
              then
                let value = NValueToDouble (ind_double g) (args ! 2)
                in if IsNValueUndefined (args ! 3)
                   then
                     let (ret, st1) = set_double eng kv value key None st
                     in (BoolToNValue (ind_resultBool g) env1 ret, env1, st1)
                   else
                     let expiration = NValueToUInt32 (ind_expiration g) (args ! 3);
                         (ret, st1) = set_double eng kv value key (Some expiration) st
                     in (BoolToNValue (ind_resultBool g) env1 ret, env1, st1)
              else (BoolToNValue (ind_resultBool g) env1 False, env1, st))"

definition decodeDouble ::
  "'st engine \<Rightarrow> platform \<Rightarrow> indeterminate \<Rightarrow> napi_env \<Rightarrow> napi_callback_info \<Rightarrow> 'st
     \<Rightarrow> napi_value \<times> napi_env \<times> 'st" where
  "decodeDouble eng p g env info st =
     (let (status, args) = napi_get_cb_info info 3;
          (returns, env0) = NAPI_CALL_RET status env
      in if returns then (NV_nullptr, env0, st)
         else
           let handle = NValueToUInt64 (ind_handle g) (args ! 0);
               (key, env1) = NValueToString p (ind_key_size g) env0 (args ! 1) False;
               defaultValue = NValueToDouble (ind_double g) (args ! 2);
               kv = handle
           in if kv \<noteq> 0 \<and> length key > 0
              then
                let (result, st1) = getDouble eng kv key defaultValue st
                in (DoubleToNValue result, env1, st1)
              else (DoubleToNValue defaultValue, env1, st))"

definition encodeString ::
  "'st engine \<Rightarrow> platform \<Rightarrow> indeterminate \<Rightarrow> napi_env \<Rightarrow> napi_callback_info \<Rightarrow> 'st
     \<Rightarrow> napi_value \<times> napi_env \<times> 'st" where
  "encodeString eng p g env info st =
     (let (status, args) = napi_get_cb_info info 4;
          (returns, env0) = NAPI_CALL_RET status env
      in if returns then (NV_nullptr, env0, st)
         else
           let handle = NValueToUInt64 (ind_handle g) (args ! 0);
               (key, env1) = NValueToString p (ind_key_size g) env0 (args ! 1) False;
               kv = handle
           in if kv \<noteq> 0 \<and> length key > 0
              then
                let (value, env2) = NValueToString p (ind_value_size g) env1 (args ! 2) False
                in if IsNValueUndefined (args ! 3)
                   then
                     let (ret, st1) = set_string eng kv value key None st
                     in (BoolToNValue (ind_resultBool g) env2 ret, env2, st1)
                   else
                     let expiration = NValueToUInt32 (ind_expiration g) (args ! 3);
                         (ret, st1) = set_string eng kv value key (Some expiration) st
                     in (BoolToNValue (ind_resultBool g) env2 ret, env2, st1)
              else (BoolToNValue (ind_resultBool g) env1 False, env1, st))"

definition decodeString ::
  "'st engine \<Rightarrow> platform \<Rightarrow> indeterminate \<Rightarrow> napi_env \<Rightarrow> napi_callback_info \<Rightarrow> 'st
     \<Rightarrow> napi_value \<times> napi_env \<times> 'st" where
  "decodeString eng p g env info st =
     (let (status, args) = napi_get_cb_info info 3;
          (returns, env0) = NAPI_CALL_RET status env
      in if returns then (NV_nullptr, env0, st)
         else
           let handle = NValueToUInt64 (ind_handle g) (args ! 0);
               (key, env1) = NValueToString p (ind_key_size g) env0 (args ! 1) False;
               kv = handle
           in if kv \<noteq> 0 \<and> length key > 0
              then
                let ((found, result), st1) = getString eng kv key st
                in if found then (StringToNValue result, env1, st1) else (args ! 2, env1, st1)
              else (args ! 2, env1, st))"

definition encodeBytes ::
  "'st engine \<Rightarrow> platform \<Rightarrow> indeterminate \<Rightarrow> napi_env \<Rightarrow> napi_callback_info \<Rightarrow> 'st
     \<Rightarrow> napi_value \<times> napi_env \<times> 'st" where
  "encodeBytes eng p g env info st =
     (let (status, args) = napi_get_cb_info info 4;
          (returns, env0) = NAPI_CALL_RET status env
      in if returns then (NV_nullptr, env0, st)
         else
           let handle = NValueToUInt64 (ind_handle g) (args ! 0);
               (key, env1) = NValueToString p (ind_key_size g) env0 (args ! 1) False;
               kv = handle
           in if kv \<noteq> 0 \<and> length key > 0
              then
                let value = NValueToMMBuffer (args ! 2) False
                in if IsNValueUndefined (args ! 3)
                   then
                     let (ret, st1) = set_bytes eng kv value key None st
                     in (BoolToNValue (ind_resultBool g) env1 ret, env1, st1)
                   else
                     let expiration = NValueToUInt32 (ind_expiration g) (args ! 3);
                         (ret, st1) = set_bytes eng kv value key (Some expiration) st
                     in (BoolToNValue (ind_resultBool g) env1 ret, env1, st1)
              else (BoolToNValue (ind_resultBool g) env1 False, env1, st))"

definition decodeBytes ::
  "'st engine \<Rightarrow> platform \<Rightarrow> indeterminate \<Rightarrow> napi_env \<Rightarrow> napi_callback_info \<Rightarrow> 'st
     \<Rightarrow> napi_value \<times> napi_env \<times> 'st" where
  "decodeBytes eng p g env info st =
     (let (status, args) = napi_get_cb_info info 3;
          (returns, env0) = NAPI_CALL_RET status env
      in if returns then (NV_nullptr, env0, st)
         else
           let handle = NValueToUInt64 (ind_handle g) (args ! 0);
               (key, env1) = NValueToString p (ind_key_size g) env0 (args ! 1) False;
               kv = handle
           in if kv \<noteq> 0 \<and> length key > 0
              then
                let ((found, result), st1) = getBytes eng kv key st
                in if found then (MMBufferToNValue result, env1, st1) else (args ! 2, env1, st1)
              else (args ! 2, env1, st))"

section \<open>The dispatch table and the module\<close>

text \<open>
  The native entry points, as the function pointers of the table name them.
\<close>

datatype napi_callback =
    Fn_initialize
  | Fn_version
  | Fn_getDefaultMMKV
  | Fn_encodeBool
  | Fn_decodeBool
  | Fn_encodeInt32
  | Fn_decodeInt32
  | Fn_encodeUInt32
  | Fn_decodeUInt32
  | Fn_encodeInt64
  | Fn_decodeInt64
  | Fn_encodeUInt64
  | Fn_decodeUInt64
  | Fn_encodeDouble
  | Fn_decodeDouble
  | Fn_encodeString
  | Fn_decodeString
  | Fn_encodeBytes
  | Fn_decodeBytes

text \<open>
  A \<^verbatim>\<open>napi_property_descriptor\<close>: the name of the property and its \<^verbatim>\<open>method\<close> (here \<open>method_ptr\<close>). The other
  fields are \<^verbatim>\<open>nullptr\<close> or \<^verbatim>\<open>napi_default\<close> in every entry of the table.
\<close>

record napi_property_descriptor =
  utf8name :: string
  method_ptr :: napi_callback

definition desc :: "napi_property_descriptor list" where
  "desc =
     [\<lparr>utf8name = ''initialize'', method_ptr = Fn_initialize\<rparr>,
      \<lparr>utf8name = ''version'', method_ptr = Fn_version\<rparr>,
      \<lparr>utf8name = ''getDefaultMMKV'', method_ptr = Fn_getDefaultMMKV\<rparr>,
      \<lparr>utf8name = ''encodeBool'', method_ptr = Fn_encodeBool\<rparr>,
      \<lparr>utf8name = ''decodeBool'', method_ptr = Fn_decodeBool\<rparr>,
      \<lparr>utf8name = ''encodeInt32'', method_ptr = Fn_encodeInt32\<rparr>,
      \<lparr>utf8name = ''decodeInt32'', method_ptr = Fn_decodeInt32\<rparr>,
      \<lparr>utf8name = ''encodeUInt32'', method_ptr = Fn_encodeUInt32\<rparr>,
      \<lparr>utf8name = ''decodeUInt32'', method_ptr = Fn_decodeUInt32\<rparr>,
      \<lparr>utf8name = ''encodeInt64'', method_ptr = Fn_encodeInt64\<rparr>,
      \<lparr>utf8name = ''decodeInt64'', method_ptr = Fn_decodeInt64\<rparr>,
      \<lparr>utf8name = ''encodeUInt64'', method_ptr = Fn_encodeUInt64\<rparr>,
      \<lparr>utf8name = ''decodeUInt64'', method_ptr = Fn_decodeUInt64\<rparr>,
      \<lparr>utf8name = ''encodeDouble'', method_ptr = Fn_encodeDouble\<rparr>,
      \<lparr>utf8name = ''decodeDouble'', method_ptr = Fn_decodeDouble\<rparr>,
      \<lparr>utf8name = ''encodeString'', method_ptr = Fn_encodeString\<rparr>,
      \<lparr>utf8name = ''decodeString'', method_ptr = Fn_decodeString\<rparr>,
      \<lparr>utf8name = ''encodeBytes'', method_ptr = Fn_encodeBytes\<rparr>,
      \<lparr>utf8name = ''decodeBytes'', method_ptr = Fn_decodeBytes\<rparr>]"

text \<open>
  The exports object, by its methods. \<^verbatim>\<open>napi_define_properties\<close> defines the first
  \<open>property_count\<close> properties of the array on the object, in their order.
\<close>

type_synonym exports = "string \<rightharpoonup> napi_callback"

definition napi_define_properties ::
  "exports \<Rightarrow> nat \<Rightarrow> napi_property_descriptor list \<Rightarrow> exports" where
  "napi_define_properties object property_count properties =
     fold (\<lambda>d obj. obj(utf8name d \<mapsto> method_ptr d)) (take property_count properties) object"

definition Init :: "exports \<Rightarrow> exports" where
  "Init ex = napi_define_properties ex (length desc) desc"

record napi_module =
  nm_version :: int
  nm_flags :: nat
  nm_filename :: "string option"
  nm_register_func :: "exports \<Rightarrow> exports"
  nm_modname :: string

definition mmkvModule :: napi_module where
  "mmkvModule =
     \<lparr>nm_version = 1, nm_flags = 0, nm_filename = None, nm_register_func = Init,
      nm_modname = ''mmkv''\<rparr>"

text \<open>
  \<^verbatim>\<open>napi_module_register\<close> adds the module to those the host knows; the host calls the
  module's register function on a new exports object when the module is loaded.
\<close>

definition napi_module_register :: "napi_module \<Rightarrow> napi_module list \<Rightarrow> napi_module list" where
  "napi_module_register m registered = registered @ [m]"

definition RegisterMMKVModule :: "napi_module list \<Rightarrow> napi_module list" where
  "RegisterMMKVModule registered = napi_module_register mmkvModule registered"

section \<open>Arguments, and a platform and an engine to run the adapter on\<close>

text \<open>The \<open>i\<close>-th argument of a call, as \<^verbatim>\<open>napi_get_cb_info\<close> hands it over.\<close>

definition arg :: "napi_callback_info \<Rightarrow> nat \<Rightarrow> napi_value" where
  "arg info i = (if i < length info then info ! i else NV_undefined)"

text \<open>
  The \<^verbatim>\<open>std::string\<close> of libc++ on a 64-bit target, the C++ library of the OpenHarmony
  NDK: a string of at most 22 bytes is held in place, with capacity 22; a longer one
  gets a heap block of a multiple of 16 bytes, at least twice the old capacity. The
  theorems below use the capacity at 22 only.
\<close>

definition libcxx_capacity :: "nat \<Rightarrow> nat" where
  "libcxx_capacity n = (if n \<le> 22 then 22 else ((max n 44 + 16) div 16) * 16 - 1)"

definition libcxx :: platform where
  "libcxx = \<lparr>string_capacity = libcxx_capacity\<rparr>"

text \<open>
  An environment with no exception pending, and locals that hold zeros (the null handle,
  for \<^verbatim>\<open>resultBool\<close>).
\<close>

definition env_clear :: napi_env where
  "env_clear = \<lparr>exception_pending = False\<rparr>"

definition zeros :: indeterminate where
  "zeros =
     \<lparr>ind_handle = 0, ind_resultBool = NV_nullptr, ind_key_size = 0, ind_bool = False,
      ind_int32 = 0, ind_uint32 = 0, ind_int64 = 0, ind_uint64 = 0, ind_double = DNum 0, ind_value_size = 0,
      ind_expiration = 0, ind_mode = 0, ind_crypt_size = 0\<rparr>"

text \<open>
  An engine that records the calls it receives, in their order. Every \<^verbatim>\<open>set\<close>
  succeeds, every \<^verbatim>\<open>get\<close> of a scalar finds nothing and gives the default back,
  \<^verbatim>\<open>getString\<close> finds \<open>''found''\<close> and \<^verbatim>\<open>getBytes\<close> finds nothing; the instance
  without encryption is at 1, the encrypted one at \<open>enc\<close>.
\<close>

datatype native_value =
    V_bool bool | V_int32 int32_t | V_uint32 uint32_t | V_int64 int64_t | V_uint64 uint64_t
  | V_double double | V_string string | V_bytes MMBuffer

datatype engine_call =
    Call_defaultMMKV int32_t "string option"
  | Call_set uint64_t native_value string "uint32_t option"
  | Call_get uint64_t string native_value
  | Call_getString uint64_t string
  | Call_getBytes uint64_t string

definition recording_engine :: "uint64_t \<Rightarrow> engine_call list engine" where
  "recording_engine enc =
     \<lparr>defaultMMKV = (\<lambda>mode crypt st.
        ((case crypt of None \<Rightarrow> 1 | Some c \<Rightarrow> enc), st @ [Call_defaultMMKV mode crypt])),
      set_bool = (\<lambda>kv v key e st. (True, st @ [Call_set kv (V_bool v) key e])),
      set_int32 = (\<lambda>kv v key e st. (True, st @ [Call_set kv (V_int32 v) key e])),
      set_uint32 = (\<lambda>kv v key e st. (True, st @ [Call_set kv (V_uint32 v) key e])),
      set_int64 = (\<lambda>kv v key e st. (True, st @ [Call_set kv (V_int64 v) key e])),
      set_uint64 = (\<lambda>kv v key e st. (True, st @ [Call_set kv (V_uint64 v) key e])),
      set_double = (\<lambda>kv v key e st. (True, st @ [Call_set kv (V_double v) key e])),
      set_string = (\<lambda>kv v key e st. (True, st @ [Call_set kv (V_string v) key e])),
      set_bytes = (\<lambda>kv v key e st. (True, st @ [Call_set kv (V_bytes v) key e])),
      getBool = (\<lambda>kv key d st. (d, st @ [Call_get kv key (V_bool d)])),
      getInt32 = (\<lambda>kv key d st. (d, st @ [Call_get kv key (V_int32 d)])),
      getUInt32 = (\<lambda>kv key d st. (d, st @ [Call_get kv key (V_uint32 d)])),
      getInt64 = (\<lambda>kv key d st. (d, st @ [Call_get kv key (V_int64 d)])),
      getUInt64 = (\<lambda>kv key d st. (d, st @ [Call_get kv key (V_uint64 d)])),
      getDouble = (\<lambda>kv key d st. (d, st @ [Call_get kv key (V_double d)])),
      getString = (\<lambda>kv key st. ((True, ''found''), st @ [Call_getString kv key])),
      getBytes = (\<lambda>kv key st. ((False, MMBuffer_empty), st @ [Call_getBytes kv key]))\<rparr>"

text \<open>The recording engine with every \<^verbatim>\<open>set\<close> failing.\<close>

definition refusing_engine :: "engine_call list engine" where
  "refusing_engine =
     (recording_engine 0)
     \<lparr>set_bool := (\<lambda>kv v key e st. (False, st @ [Call_set kv (V_bool v) key e])),
      set_int32 := (\<lambda>kv v key e st. (False, st @ [Call_set kv (V_int32 v) key e])),
      set_uint32 := (\<lambda>kv v key e st. (False, st @ [Call_set kv (V_uint32 v) key e])),
      set_int64 := (\<lambda>kv v key e st. (False, st @ [Call_set kv (V_int64 v) key e])),
      set_uint64 := (\<lambda>kv v key e st. (False, st @ [Call_set kv (V_uint64 v) key e])),
      set_double := (\<lambda>kv v key e st. (False, st @ [Call_set kv (V_double v) key e])),
      set_string := (\<lambda>kv v key e st. (False, st @ [Call_set kv (V_string v) key e])),
      set_bytes := (\<lambda>kv v key e st. (False, st @ [Call_set kv (V_bytes v) key e]))\<rparr>"

section \<open>The arguments and the macro\<close>

lemma cb_info: "napi_get_cb_info info n = (napi_ok, map (arg info) [0..<n])"
  by (auto simp: napi_get_cb_info_def arg_def list_eq_iff_nth_eq nth_append)

lemma cb_info2: "napi_get_cb_info info 2 = (napi_ok, [arg info 0, arg info 1])"
  by (simp add: cb_info upt_rec numeral_2_eq_2)

lemma cb_info3: "napi_get_cb_info info 3 = (napi_ok, [arg info 0, arg info 1, arg info 2])"
  by (simp add: cb_info upt_rec numeral_2_eq_2 numeral_3_eq_3)

lemma cb_info4:
  "napi_get_cb_info info 4 = (napi_ok, [arg info 0, arg info 1, arg info 2, arg info 3])"
  by (simp add: cb_info upt_rec numeral_2_eq_2 numeral_3_eq_3)

lemma NAPI_CALL_RET_ok: "NAPI_CALL_RET napi_ok env = (False, env)"
  by (simp add: NAPI_CALL_RET_def)

lemma IsNValueUndefined_iff: "IsNValueUndefined v = (v = NV_undefined)"
  by (cases v) (simp_all add: IsNValueUndefined_def)

lemma BoolToNValue_eq:
  "BoolToNValue u env b = (if exception_pending env then u else NV_boolean b)"
  by (cases b)
    (simp_all add: BoolToNValue_def napi_coerce_to_bool_def napi_create_double_def
      double_of_bool_def stored_def)

section \<open>What each exported function computes\<close>

text \<open>
  Each exported function, with the arguments fetched and the macro resolved: the guard
  on the handle and the key, then one call of the engine.
\<close>

lemma encodeBool_run:
  assumes "NValueToString p (ind_key_size g) env (arg info 1) False = (key, env1)"
  shows "encodeBool eng p g env info st =
    (if NValueToUInt64 (ind_handle g) (arg info 0) \<noteq> 0 \<and> key \<noteq> []
     then
       (BoolToNValue (ind_resultBool g) (env1) (fst (set_bool eng (NValueToUInt64 (ind_handle g) (arg info 0))
          (NValueToBool (ind_bool g) (arg info 2)) key
          (if arg info 3 = NV_undefined then None
          else Some (NValueToUInt32 (ind_expiration g) (arg info 3))) st)),
        env1,
        snd (set_bool eng (NValueToUInt64 (ind_handle g) (arg info 0))
          (NValueToBool (ind_bool g) (arg info 2)) key
          (if arg info 3 = NV_undefined then None
          else Some (NValueToUInt32 (ind_expiration g) (arg info 3))) st))
     else (BoolToNValue (ind_resultBool g) env1 False, env1, st))"
  using assms
  by (simp add: encodeBool_def cb_info4 NAPI_CALL_RET_ok IsNValueUndefined_iff Let_def
      split_beta)

lemma encodeInt32_run:
  assumes "NValueToString p (ind_key_size g) env (arg info 1) False = (key, env1)"
  shows "encodeInt32 eng p g env info st =
    (if NValueToUInt64 (ind_handle g) (arg info 0) \<noteq> 0 \<and> key \<noteq> []
     then
       (BoolToNValue (ind_resultBool g) (env1) (fst (set_int32 eng (NValueToUInt64 (ind_handle g) (arg info 0))
          (NValueToInt32 (ind_int32 g) (arg info 2)) key
          (if arg info 3 = NV_undefined then None
          else Some (NValueToUInt32 (ind_expiration g) (arg info 3))) st)),
        env1,
        snd (set_int32 eng (NValueToUInt64 (ind_handle g) (arg info 0))
          (NValueToInt32 (ind_int32 g) (arg info 2)) key
          (if arg info 3 = NV_undefined then None
          else Some (NValueToUInt32 (ind_expiration g) (arg info 3))) st))
     else (BoolToNValue (ind_resultBool g) env1 False, env1, st))"
  using assms
  by (simp add: encodeInt32_def cb_info4 NAPI_CALL_RET_ok IsNValueUndefined_iff Let_def
      split_beta)

lemma encodeUInt32_run:
  assumes "NValueToString p (ind_key_size g) env (arg info 1) False = (key, env1)"
  shows "encodeUInt32 eng p g env info st =
    (if NValueToUInt64 (ind_handle g) (arg info 0) \<noteq> 0 \<and> key \<noteq> []
     then
       (BoolToNValue (ind_resultBool g) (env1) (fst (set_uint32 eng (NValueToUInt64 (ind_handle g) (arg info 0))
          (NValueToUInt32 (ind_uint32 g) (arg info 2)) key
          (if arg info 3 = NV_undefined then None
          else Some (NValueToUInt32 (ind_expiration g) (arg info 3))) st)),
        env1,
        snd (set_uint32 eng (NValueToUInt64 (ind_handle g) (arg info 0))
          (NValueToUInt32 (ind_uint32 g) (arg info 2)) key
          (if arg info 3 = NV_undefined then None
          else Some (NValueToUInt32 (ind_expiration g) (arg info 3))) st))
     else (BoolToNValue (ind_resultBool g) env1 False, env1, st))"
  using assms
  by (simp add: encodeUInt32_def cb_info4 NAPI_CALL_RET_ok IsNValueUndefined_iff Let_def
      split_beta)

lemma encodeInt64_run:
  assumes "NValueToString p (ind_key_size g) env (arg info 1) False = (key, env1)"
  shows "encodeInt64 eng p g env info st =
    (if NValueToUInt64 (ind_handle g) (arg info 0) \<noteq> 0 \<and> key \<noteq> []
     then
       (BoolToNValue (ind_resultBool g) (env1) (fst (set_int64 eng (NValueToUInt64 (ind_handle g) (arg info 0))
          (NValueToInt64 (ind_int64 g) (arg info 2)) key
          (if arg info 3 = NV_undefined then None
          else Some (NValueToUInt32 (ind_expiration g) (arg info 3))) st)),
        env1,
        snd (set_int64 eng (NValueToUInt64 (ind_handle g) (arg info 0))
          (NValueToInt64 (ind_int64 g) (arg info 2)) key
          (if arg info 3 = NV_undefined then None
          else Some (NValueToUInt32 (ind_expiration g) (arg info 3))) st))
     else (BoolToNValue (ind_resultBool g) env1 False, env1, st))"
  using assms
  by (simp add: encodeInt64_def cb_info4 NAPI_CALL_RET_ok IsNValueUndefined_iff Let_def
      split_beta)

lemma encodeUInt64_run:
  assumes "NValueToString p (ind_key_size g) env (arg info 1) False = (key, env1)"
  shows "encodeUInt64 eng p g env info st =
    (if NValueToUInt64 (ind_handle g) (arg info 0) \<noteq> 0 \<and> key \<noteq> []
     then
       (BoolToNValue (ind_resultBool g) (env1) (fst (set_uint64 eng (NValueToUInt64 (ind_handle g) (arg info 0))
          (NValueToUInt64 (ind_uint64 g) (arg info 2)) key
          (if arg info 3 = NV_undefined then None
          else Some (NValueToUInt32 (ind_expiration g) (arg info 3))) st)),
        env1,
        snd (set_uint64 eng (NValueToUInt64 (ind_handle g) (arg info 0))
          (NValueToUInt64 (ind_uint64 g) (arg info 2)) key
          (if arg info 3 = NV_undefined then None
          else Some (NValueToUInt32 (ind_expiration g) (arg info 3))) st))
     else (BoolToNValue (ind_resultBool g) env1 False, env1, st))"
  using assms
  by (simp add: encodeUInt64_def cb_info4 NAPI_CALL_RET_ok IsNValueUndefined_iff Let_def
      split_beta)

lemma encodeDouble_run:
  assumes "NValueToString p (ind_key_size g) env (arg info 1) False = (key, env1)"
  shows "encodeDouble eng p g env info st =
    (if NValueToUInt64 (ind_handle g) (arg info 0) \<noteq> 0 \<and> key \<noteq> []
     then
       (BoolToNValue (ind_resultBool g) (env1) (fst (set_double eng (NValueToUInt64 (ind_handle g) (arg info 0))
          (NValueToDouble (ind_double g) (arg info 2)) key
          (if arg info 3 = NV_undefined then None
          else Some (NValueToUInt32 (ind_expiration g) (arg info 3))) st)),
        env1,
        snd (set_double eng (NValueToUInt64 (ind_handle g) (arg info 0))
          (NValueToDouble (ind_double g) (arg info 2)) key
          (if arg info 3 = NV_undefined then None
          else Some (NValueToUInt32 (ind_expiration g) (arg info 3))) st))
     else (BoolToNValue (ind_resultBool g) env1 False, env1, st))"
  using assms
  by (simp add: encodeDouble_def cb_info4 NAPI_CALL_RET_ok IsNValueUndefined_iff Let_def
      split_beta)

lemma encodeString_run:
  assumes "NValueToString p (ind_key_size g) env (arg info 1) False = (key, env1)"
  shows "encodeString eng p g env info st =
    (if NValueToUInt64 (ind_handle g) (arg info 0) \<noteq> 0 \<and> key \<noteq> []
     then
       (BoolToNValue (ind_resultBool g) (snd (NValueToString p (ind_value_size g) env1 (arg info 2) False)) (fst (set_string eng (NValueToUInt64 (ind_handle g) (arg info 0))
          (fst (NValueToString p (ind_value_size g) env1 (arg info 2) False)) key
          (if arg info 3 = NV_undefined then None
          else Some (NValueToUInt32 (ind_expiration g) (arg info 3))) st)),
        snd (NValueToString p (ind_value_size g) env1 (arg info 2) False),
        snd (set_string eng (NValueToUInt64 (ind_handle g) (arg info 0))
          (fst (NValueToString p (ind_value_size g) env1 (arg info 2) False)) key
          (if arg info 3 = NV_undefined then None
          else Some (NValueToUInt32 (ind_expiration g) (arg info 3))) st))
     else (BoolToNValue (ind_resultBool g) env1 False, env1, st))"
  using assms
  by (simp add: encodeString_def cb_info4 NAPI_CALL_RET_ok IsNValueUndefined_iff Let_def
      split_beta)

lemma encodeBytes_run:
  assumes "NValueToString p (ind_key_size g) env (arg info 1) False = (key, env1)"
  shows "encodeBytes eng p g env info st =
    (if NValueToUInt64 (ind_handle g) (arg info 0) \<noteq> 0 \<and> key \<noteq> []
     then
       (BoolToNValue (ind_resultBool g) (env1) (fst (set_bytes eng (NValueToUInt64 (ind_handle g) (arg info 0))
          (NValueToMMBuffer (arg info 2) False) key
          (if arg info 3 = NV_undefined then None
          else Some (NValueToUInt32 (ind_expiration g) (arg info 3))) st)),
        env1,
        snd (set_bytes eng (NValueToUInt64 (ind_handle g) (arg info 0))
          (NValueToMMBuffer (arg info 2) False) key
          (if arg info 3 = NV_undefined then None
          else Some (NValueToUInt32 (ind_expiration g) (arg info 3))) st))
     else (BoolToNValue (ind_resultBool g) env1 False, env1, st))"
  using assms
  by (simp add: encodeBytes_def cb_info4 NAPI_CALL_RET_ok IsNValueUndefined_iff Let_def
      split_beta)

lemma decodeBool_run:
  assumes "NValueToString p (ind_key_size g) env (arg info 1) False = (key, env1)"
  shows "decodeBool eng p g env info st =
    (if NValueToUInt64 (ind_handle g) (arg info 0) \<noteq> 0 \<and> key \<noteq> []
     then
       (BoolToNValue (ind_resultBool g) env1 (fst (getBool eng (NValueToUInt64 (ind_handle g) (arg info 0)) key
          (NValueToBool (ind_bool g) (arg info 2)) st)),
        env1,
        snd (getBool eng (NValueToUInt64 (ind_handle g) (arg info 0)) key
          (NValueToBool (ind_bool g) (arg info 2)) st))
     else (BoolToNValue (ind_resultBool g) env1 (NValueToBool (ind_bool g) (arg info 2)), env1, st))"
  using assms
  by (simp add: decodeBool_def cb_info3 NAPI_CALL_RET_ok Let_def split_beta)

lemma decodeInt32_run:
  assumes "NValueToString p (ind_key_size g) env (arg info 1) False = (key, env1)"
  shows "decodeInt32 eng p g env info st =
    (if NValueToUInt64 (ind_handle g) (arg info 0) \<noteq> 0 \<and> key \<noteq> []
     then
       (Int32ToNValue (fst (getInt32 eng (NValueToUInt64 (ind_handle g) (arg info 0)) key
          (NValueToInt32 (ind_int32 g) (arg info 2)) st)),
        env1,
        snd (getInt32 eng (NValueToUInt64 (ind_handle g) (arg info 0)) key
          (NValueToInt32 (ind_int32 g) (arg info 2)) st))
     else (Int32ToNValue (NValueToInt32 (ind_int32 g) (arg info 2)), env1, st))"
  using assms
  by (simp add: decodeInt32_def cb_info3 NAPI_CALL_RET_ok Let_def split_beta)

lemma decodeUInt32_run:
  assumes "NValueToString p (ind_key_size g) env (arg info 1) False = (key, env1)"
  shows "decodeUInt32 eng p g env info st =
    (if NValueToUInt64 (ind_handle g) (arg info 0) \<noteq> 0 \<and> key \<noteq> []
     then
       (UInt32ToNValue (fst (getUInt32 eng (NValueToUInt64 (ind_handle g) (arg info 0)) key
          (NValueToUInt32 (ind_uint32 g) (arg info 2)) st)),
        env1,
        snd (getUInt32 eng (NValueToUInt64 (ind_handle g) (arg info 0)) key
          (NValueToUInt32 (ind_uint32 g) (arg info 2)) st))
     else (UInt32ToNValue (NValueToUInt32 (ind_uint32 g) (arg info 2)), env1, st))"
  using assms
  by (simp add: decodeUInt32_def cb_info3 NAPI_CALL_RET_ok Let_def split_beta)

lemma decodeInt64_run:
  assumes "NValueToString p (ind_key_size g) env (arg info 1) False = (key, env1)"
  shows "decodeInt64 eng p g env info st =
    (if NValueToUInt64 (ind_handle g) (arg info 0) \<noteq> 0 \<and> key \<noteq> []
     then
       (Int64ToNValue (fst (getInt64 eng (NValueToUInt64 (ind_handle g) (arg info 0)) key
          (NValueToInt64 (ind_int64 g) (arg info 2)) st)),
        env1,
        snd (getInt64 eng (NValueToUInt64 (ind_handle g) (arg info 0)) key
          (NValueToInt64 (ind_int64 g) (arg info 2)) st))
     else (Int64ToNValue (NValueToInt64 (ind_int64 g) (arg info 2)), env1, st))"
  using assms
  by (simp add: decodeInt64_def cb_info3 NAPI_CALL_RET_ok Let_def split_beta)

lemma decodeUInt64_run:
  assumes "NValueToString p (ind_key_size g) env (arg info 1) False = (key, env1)"
  shows "decodeUInt64 eng p g env info st =
    (if NValueToUInt64 (ind_handle g) (arg info 0) \<noteq> 0 \<and> key \<noteq> []
     then
       (UInt64ToNValue (fst (getUInt64 eng (NValueToUInt64 (ind_handle g) (arg info 0)) key
          (NValueToUInt64 (ind_uint64 g) (arg info 2)) st)),
        env1,
        snd (getUInt64 eng (NValueToUInt64 (ind_handle g) (arg info 0)) key
          (NValueToUInt64 (ind_uint64 g) (arg info 2)) st))
     else (UInt64ToNValue (NValueToUInt64 (ind_uint64 g) (arg info 2)), env1, st))"
  using assms
  by (simp add: decodeUInt64_def cb_info3 NAPI_CALL_RET_ok Let_def split_beta)

lemma decodeDouble_run:
  assumes "NValueToString p (ind_key_size g) env (arg info 1) False = (key, env1)"
  shows "decodeDouble eng p g env info st =
    (if NValueToUInt64 (ind_handle g) (arg info 0) \<noteq> 0 \<and> key \<noteq> []
     then
       (DoubleToNValue (fst (getDouble eng (NValueToUInt64 (ind_handle g) (arg info 0)) key
          (NValueToDouble (ind_double g) (arg info 2)) st)),
        env1,
        snd (getDouble eng (NValueToUInt64 (ind_handle g) (arg info 0)) key
          (NValueToDouble (ind_double g) (arg info 2)) st))
     else (DoubleToNValue (NValueToDouble (ind_double g) (arg info 2)), env1, st))"
  using assms
  by (simp add: decodeDouble_def cb_info3 NAPI_CALL_RET_ok Let_def split_beta)

lemma decodeString_run:
  assumes "NValueToString p (ind_key_size g) env (arg info 1) False = (key, env1)"
  shows "decodeString eng p g env info st =
    (if NValueToUInt64 (ind_handle g) (arg info 0) \<noteq> 0 \<and> key \<noteq> []
     then
       (if fst (fst (getString eng (NValueToUInt64 (ind_handle g) (arg info 0)) key st))
        then StringToNValue (snd (fst (getString eng (NValueToUInt64 (ind_handle g) (arg info 0)) key st)))
        else arg info 2,
        env1,
        snd (getString eng (NValueToUInt64 (ind_handle g) (arg info 0)) key st))
     else (arg info 2, env1, st))"
  using assms
  by (simp add: decodeString_def cb_info3 NAPI_CALL_RET_ok Let_def split_beta)

lemma decodeBytes_run:
  assumes "NValueToString p (ind_key_size g) env (arg info 1) False = (key, env1)"
  shows "decodeBytes eng p g env info st =
    (if NValueToUInt64 (ind_handle g) (arg info 0) \<noteq> 0 \<and> key \<noteq> []
     then
       (if fst (fst (getBytes eng (NValueToUInt64 (ind_handle g) (arg info 0)) key st))
        then MMBufferToNValue (snd (fst (getBytes eng (NValueToUInt64 (ind_handle g) (arg info 0)) key st)))
        else arg info 2,
        env1,
        snd (getBytes eng (NValueToUInt64 (ind_handle g) (arg info 0)) key st))
     else (arg info 2, env1, st))"
  using assms
  by (simp add: decodeBytes_def cb_info3 NAPI_CALL_RET_ok Let_def split_beta)
section \<open>Round trips of the conversions\<close>

lemma double_trunc_of_int: "double_trunc (DNum (of_int n)) = n"
  by simp

lemma double_trunc_int32: "double_trunc (double_of_int32 v) = sint v"
  unfolding double_of_int32_def by (rule double_trunc_of_int)

lemma double_trunc_uint32: "double_trunc (double_of_uint32 v) = uint v"
  unfolding double_of_uint32_def by (rule double_trunc_of_int)

lemma Bool_back: "\<not> exception_pending env \<Longrightarrow> NValueToBool ub (BoolToNValue u env b) = b"
  by (simp add: NValueToBool_def BoolToNValue_eq stored_def)

lemma Int32_back: "NValueToInt32 u (Int32ToNValue i) = i"
  by (simp add: NValueToInt32_def Int32ToNValue_def napi_create_int32_def
      double_trunc_int32 stored_def)

lemma UInt32_back: "NValueToUInt32 u (UInt32ToNValue i) = i"
  by (simp add: NValueToUInt32_def UInt32ToNValue_def napi_create_uint32_def
      double_trunc_uint32 stored_def)

lemma Int64_back: "NValueToInt64 u (Int64ToNValue i) = i"
  by (simp add: NValueToInt64_def Int64ToNValue_def napi_create_bigint_int64_def stored_def)

lemma UInt64_back: "NValueToUInt64 u (UInt64ToNValue i) = i"
  by (simp add: NValueToUInt64_def UInt64ToNValue_def napi_create_bigint_uint64_def stored_def)

lemma Double_back: "NValueToDouble u (DoubleToNValue d) = d"
  by (simp add: NValueToDouble_def DoubleToNValue_def napi_create_double_def stored_def)

text \<open>
  C2: a bool, an int32, a uint32, an int64, a uint64 or a double that is converted to a
  host value by its \<^verbatim>\<open>*ToNValue\<close> function and back by its \<^verbatim>\<open>NValueTo*\<close> function is
  returned as it was, whatever the local of the second function held before the call.
  For a bool, \<^verbatim>\<open>BoolToNValue\<close> delivers the host value when no exception is pending in
  the environment it is called in.
\<close>

theorem scalar_roundtrip:
  "(\<not> exception_pending env \<longrightarrow> NValueToBool ub (BoolToNValue u env b) = b) \<and>
   NValueToInt32 ui (Int32ToNValue i) = i \<and>
   NValueToUInt32 uj (UInt32ToNValue j) = j \<and>
   NValueToInt64 uk (Int64ToNValue k) = k \<and>
   NValueToUInt64 ul (UInt64ToNValue l) = l \<and>
   NValueToDouble ud (DoubleToNValue d) = d"
  by (simp add: Bool_back Int32_back UInt32_back Int64_back UInt64_back Double_back)

theorem scalar_roundtrip_witness:
  "NValueToBool False (BoolToNValue NV_nullptr env_clear True) = True \<and>
   NValueToInt32 0 (Int32ToNValue (- 5)) = - 5 \<and>
   NValueToUInt32 0 (UInt32ToNValue 4000000000) = 4000000000 \<and>
   NValueToInt64 0 (Int64ToNValue (- 5)) = - 5 \<and>
   NValueToUInt64 0 (UInt64ToNValue 5) = 5 \<and>
   NValueToDouble DNaN (DoubleToNValue DNegZero) = DNegZero"
  using scalar_roundtrip [of env_clear False NV_nullptr True 0 "- 5" 0 4000000000 0 "- 5" 0 5
      DNaN DNegZero]
  by (simp add: env_clear_def)

section \<open>Strings\<close>

text \<open>
  The characters of a string put together are the string, and \<open>utf8_take\<close> keeps a
  string that fits, never returns more than \<open>n\<close> bytes, and cuts a string without
  continuation bytes (ASCII, for one) like \<open>take\<close>.
\<close>

lemma concat_utf8_chars: "concat (utf8_chars s) = s"
  by (induction s rule: utf8_chars.induct) (auto split: list.splits)

lemma take_chars_all: "length (concat chs) \<le> n \<Longrightarrow> take_chars n chs = chs"
  by (induction chs arbitrary: n) auto

lemma utf8_take_all: "length s \<le> n \<Longrightarrow> utf8_take n s = s"
  by (simp add: utf8_take_def take_chars_all concat_utf8_chars)

lemma length_take_chars: "length (concat (take_chars n chs)) \<le> n"
proof (induction chs arbitrary: n)
  case Nil
  show ?case by simp
next
  case (Cons ch chs)
  from Cons.IH [of "n - length ch"] show ?case by auto
qed

lemma length_utf8_take: "length (utf8_take n s) \<le> n"
  by (simp add: utf8_take_def length_take_chars)

lemma utf8_chars_ascii:
  "\<forall>c \<in> set s. \<not> is_continuation c \<Longrightarrow> utf8_chars s = map (\<lambda>c. [c]) s"
  by (induction s rule: utf8_chars.induct) (auto split: list.splits)

lemma take_chars_singletons: "take_chars n (map (\<lambda>c. [c]) s) = map (\<lambda>c. [c]) (take n s)"
  by (induction s arbitrary: n) (auto simp: take_Cons split: nat.splits)

lemma utf8_take_ascii: "\<forall>c \<in> set s. \<not> is_continuation c \<Longrightarrow> utf8_take n s = take n s"
  by (simp add: utf8_take_def utf8_chars_ascii take_chars_singletons)

text \<open>
  A host string goes through \<^verbatim>\<open>NValueToString\<close> unchanged when the capacity of
  \<^verbatim>\<open>result\<close> exceeds its size, since the second call of
  \<^verbatim>\<open>napi_get_value_string_utf8\<close> is given the capacity as the size of the buffer and
  keeps one byte of it for the terminator. When the capacity equals the size, the last
  character of the string is not copied: zero bytes stand in its place.
\<close>

lemma NValueToString_fits:
  assumes "length s < string_capacity p (length s)"
  shows "NValueToString p u env (NV_string s) m = (s, env)"
  using assms
  by (simp add: NValueToString_def IsNValueUndefined_iff NAPI_CALL_RET_ok stored_def resize_def
      Let_def utf8_take_all)

lemma take_Cons_replicate: "take k (x # replicate k x) = replicate k x"
  by (induction k) simp_all

lemma take_fill: "take (Suc j) (x # replicate j x @ drop 0 [x]) = replicate (Suc j) x"
  by (simp add: replicate_append_same take_Cons_replicate)

lemma arith_facts:
  assumes "(k::nat) \<le> n - Suc 0" "0 < n"
  shows "n - k = Suc (n - Suc k)" "Suc k - n = 0"
  using assms by linarith+

lemma NValueToString_tight:
  assumes "s \<noteq> []" and "string_capacity p (length s) = length s"
  shows "NValueToString p u env (NV_string s) m =
    (utf8_take (length s - 1) s @
       replicate (length s - length (utf8_take (length s - 1) s)) NUL, env)"
proof -
  have len: "length (utf8_take (length s - Suc 0) s) \<le> length s - Suc 0"
    by (rule length_utf8_take)
  from assms(1) have pos: "0 < length s" by simp
  note j = arith_facts [OF len pos]
  from assms show ?thesis
    apply (simp add: NValueToString_def IsNValueUndefined_iff NAPI_CALL_RET_ok stored_def
        resize_def Let_def)
    apply (simp only: j(2))
    apply (subst j(1))
    apply (subst j(1))
    apply (simp only: take_fill)
    apply (rule conjI)
     apply (rule order_trans [OF len])
     apply simp
    apply (rule refl)
    done
qed

lemma NValueToString_tight_ascii:
  assumes "s \<noteq> []" and "string_capacity p (length s) = length s"
    and "\<forall>c \<in> set s. \<not> is_continuation c"
  shows "NValueToString p u env (NV_string s) m = (butlast s @ [NUL], env)"
proof -
  have c: "utf8_take (length s - 1) s = butlast s"
    using assms(3) by (simp add: utf8_take_ascii butlast_conv_take)
  from assms(1) have "length s - length (butlast s) = Suc 0"
    by (cases s) simp_all
  then have "replicate (length s - length (butlast s)) NUL = [NUL]"
    by (simp only: replicate.simps)
  with NValueToString_tight [OF assms(1,2), of u env m] c show ?thesis
    by (simp only:)
qed

lemma NValueToString_empty: "NValueToString p u env (NV_string []) m = ([], env)"
  by (simp add: NValueToString_def IsNValueUndefined_iff NAPI_CALL_RET_ok stored_def resize_def
      Let_def utf8_take_def)

lemma NValueToString_undefined: "NValueToString p u env NV_undefined True = ([], env)"
  by (simp add: NValueToString_def IsNValueUndefined_iff)

text \<open>
  A host value that is no string, a number for one: with no exception pending the macro
  throws and the function returns the empty string; with an exception pending the
  function goes on, and returns as many zero bytes as its local \<^verbatim>\<open>size\<close> happened to
  hold.
\<close>

lemma NValueToString_number:
  "NValueToString p u env (NV_number d) m =
     (if exception_pending env then (replicate u NUL, env) else ([], napi_throw_error env))"
  by (simp add: NValueToString_def IsNValueUndefined_iff NAPI_CALL_RET_def stored_def
      resize_def Let_def)

text \<open>
  C3: on libc++, the 22 bytes \<open>abcdefghijklmnopqrstuv\<close> converted to a host string by
  \<^verbatim>\<open>StringToNValue\<close> and back by \<^verbatim>\<open>NValueToString\<close> come back with the last byte
  replaced by a zero byte: the string returned has the same length, and other bytes.
\<close>

theorem string_roundtrip_loses_last_byte:
  "NValueToString libcxx 0 env_clear (StringToNValue ''abcdefghijklmnopqrstuv'') False =
     (''abcdefghijklmnopqrstu'' @ [NUL], env_clear)"
  by (simp add: StringToNValue_def napi_create_string_utf8_def NValueToString_tight_ascii
      libcxx_def libcxx_capacity_def is_continuation_def)

text \<open>
  With a last character of two bytes the whole character is lost: 20 letters and
  \<open>U+00E9\<close> come back as the 20 letters and two zero bytes.
\<close>

lemma utf8_take_example:
  "utf8_take 21 (''abcdefghijklmnopqrst'' @ [CHR 0xC3, CHR 0xA9]) = ''abcdefghijklmnopqrst''"
  by (simp add: utf8_take_def is_continuation_def)

lemma string_roundtrip_loses_last_character:
  "NValueToString libcxx 0 env_clear
     (StringToNValue (''abcdefghijklmnopqrst'' @ [CHR 0xC3, CHR 0xA9])) False =
     (''abcdefghijklmnopqrst'' @ [NUL, NUL], env_clear)"
proof -
  let ?s = "''abcdefghijklmnopqrst'' @ [CHR 0xC3, CHR 0xA9]"
  have ne: "?s \<noteq> []" by simp
  have cap: "string_capacity libcxx (length ?s) = length ?s"
    by (simp add: libcxx_def libcxx_capacity_def)
  have "length ?s - 1 = 21" by simp
  then have u: "utf8_take (length ?s - 1) ?s = ''abcdefghijklmnopqrst''"
    by (simp only: utf8_take_example)
  have r: "replicate (length ?s - length ''abcdefghijklmnopqrst'') NUL = [NUL, NUL]"
    by simp
  from NValueToString_tight [OF ne cap, of 0 env_clear False] show ?thesis
    unfolding StringToNValue_def napi_create_string_utf8_def by (simp only: u r)
qed

text \<open>
  C4: a byte buffer converted to a host array buffer by \<^verbatim>\<open>MMBufferToNValue\<close> and back by
  \<^verbatim>\<open>NValueToMMBuffer\<close> has the same length and the same bytes.
\<close>

theorem mmbuffer_roundtrip:
  "mmbuffer_length (NValueToMMBuffer (MMBufferToNValue b) m) = mmbuffer_length b \<and>
   getPtr (NValueToMMBuffer (MMBufferToNValue b) m) = getPtr b"
  by (simp add: NValueToMMBuffer_def MMBufferToNValue_def napi_create_arraybuffer_def
      memcpy_def mmbuffer_length_def IsNValueUndefined_iff)

section \<open>The exported encode and decode functions\<close>

text \<open>
  In the theorems of this section \<open>kv\<close> is the handle and \<open>key\<close> the key as the
  function converts them from its first two arguments, \<open>env1\<close> is the environment after
  the conversion of the key, and \<open>expiration\<close> is what the fourth argument stands for.
  The engine \<open>eng\<close>, its state \<open>st\<close>, the platform, the contents of the uninitialised
  locals, the environment and the arguments are arbitrary.
\<close>

lemma sint_in_range32: "- (2 ^ 31) \<le> i \<Longrightarrow> i < 2 ^ 31 \<Longrightarrow> sint (word_of_int i :: 32 word) = i"
  by (simp add: sint_sbintrunc' signed_take_bit_int_eq_self)

lemma sint_in_range64: "- (2 ^ 63) \<le> i \<Longrightarrow> i < 2 ^ 63 \<Longrightarrow> sint (word_of_int i :: 64 word) = i"
  by (simp add: sint_sbintrunc' signed_take_bit_int_eq_self)

lemma uint_in_range32: "0 \<le> i \<Longrightarrow> i < 2 ^ 32 \<Longrightarrow> uint (word_of_int i :: 32 word) = i"
  by (simp add: uint_word_of_int)

lemma uint_in_range64: "0 \<le> i \<Longrightarrow> i < 2 ^ 64 \<Longrightarrow> uint (word_of_int i :: 64 word) = i"
  by (simp add: uint_word_of_int)

text \<open>
  C1: when the handle is not null and the key is not empty, the state of the engine
  after an exported encode function is the state after one \<^verbatim>\<open>set\<close> of the engine, of
  the converted value under that key on that instance, and the state after an exported
  decode function is the state after one \<^verbatim>\<open>get\<close> of the engine for that key. The
  adapter changes the state of the store in no other way.
\<close>

theorem encode_decode_single_engine_call:
  assumes kv: "kv = NValueToUInt64 (ind_handle g) (arg info 0)"
    and key: "NValueToString p (ind_key_size g) env (arg info 1) False = (key, env1)"
    and guard: "kv \<noteq> 0" "key \<noteq> []"
    and expiration: "expiration =
      (if arg info 3 = NV_undefined then None
       else Some (NValueToUInt32 (ind_expiration g) (arg info 3)))"
  shows
    "snd (snd (encodeBool eng p g env info st)) =
       snd (set_bool eng kv (NValueToBool (ind_bool g) (arg info 2)) key expiration st) \<and>
     snd (snd (encodeInt32 eng p g env info st)) =
       snd (set_int32 eng kv (NValueToInt32 (ind_int32 g) (arg info 2)) key expiration st) \<and>
     snd (snd (encodeUInt32 eng p g env info st)) =
       snd (set_uint32 eng kv (NValueToUInt32 (ind_uint32 g) (arg info 2)) key expiration st) \<and>
     snd (snd (encodeInt64 eng p g env info st)) =
       snd (set_int64 eng kv (NValueToInt64 (ind_int64 g) (arg info 2)) key expiration st) \<and>
     snd (snd (encodeUInt64 eng p g env info st)) =
       snd (set_uint64 eng kv (NValueToUInt64 (ind_uint64 g) (arg info 2)) key expiration st) \<and>
     snd (snd (encodeDouble eng p g env info st)) =
       snd (set_double eng kv (NValueToDouble (ind_double g) (arg info 2)) key expiration st) \<and>
     snd (snd (encodeString eng p g env info st)) =
       snd (set_string eng kv (fst (NValueToString p (ind_value_size g) env1 (arg info 2) False)) key expiration st) \<and>
     snd (snd (encodeBytes eng p g env info st)) =
       snd (set_bytes eng kv (NValueToMMBuffer (arg info 2) False) key expiration st) \<and>
     snd (snd (decodeBool eng p g env info st)) =
       snd (getBool eng kv key (NValueToBool (ind_bool g) (arg info 2)) st) \<and>
     snd (snd (decodeInt32 eng p g env info st)) =
       snd (getInt32 eng kv key (NValueToInt32 (ind_int32 g) (arg info 2)) st) \<and>
     snd (snd (decodeUInt32 eng p g env info st)) =
       snd (getUInt32 eng kv key (NValueToUInt32 (ind_uint32 g) (arg info 2)) st) \<and>
     snd (snd (decodeInt64 eng p g env info st)) =
       snd (getInt64 eng kv key (NValueToInt64 (ind_int64 g) (arg info 2)) st) \<and>
     snd (snd (decodeUInt64 eng p g env info st)) =
       snd (getUInt64 eng kv key (NValueToUInt64 (ind_uint64 g) (arg info 2)) st) \<and>
     snd (snd (decodeDouble eng p g env info st)) =
       snd (getDouble eng kv key (NValueToDouble (ind_double g) (arg info 2)) st) \<and>
     snd (snd (decodeString eng p g env info st)) = snd (getString eng kv key st) \<and>
     snd (snd (decodeBytes eng p g env info st)) = snd (getBytes eng kv key st)"
  using kv guard expiration
  by (simp add: encodeBool_run [OF key] encodeInt32_run [OF key] encodeUInt32_run [OF key] encodeInt64_run [OF key] encodeUInt64_run [OF key] encodeDouble_run [OF key] encodeString_run [OF key] encodeBytes_run [OF key]
      decodeBool_run [OF key] decodeInt32_run [OF key] decodeUInt32_run [OF key] decodeInt64_run [OF key] decodeUInt64_run [OF key] decodeDouble_run [OF key] decodeString_run [OF key] decodeBytes_run [OF key])

text \<open>
  C6, as stated, fails for \<^verbatim>\<open>encodeString\<close> when the value is no host string: the
  conversion of the value throws, the engine's \<^verbatim>\<open>set\<close> is still called (with the empty
  string) and succeeds, and \<^verbatim>\<open>BoolToNValue\<close>, called with the exception pending,
  returns what its local held, here the null handle, and not the host boolean of the
  success.
\<close>

theorem encodeString_value_not_string:
  "encodeString (recording_engine 2) libcxx zeros env_clear
     [NV_bigint 7, NV_string ''k'', NV_number (DNum 5)] [] =
   (NV_nullptr, \<lparr>exception_pending = True\<rparr>, [Call_set 7 (V_string []) ''k'' None])"
proof -
  have key: "NValueToString libcxx (ind_key_size zeros) env_clear
      (arg [NV_bigint 7, NV_string ''k'', NV_number (DNum 5)] 1) False = (''k'', env_clear)"
    by (simp add: arg_def NValueToString_fits libcxx_def libcxx_capacity_def)
  show ?thesis
    by (subst encodeString_run [OF key])
      (simp add: arg_def NValueToUInt64_def stored_def NValueToString_number env_clear_def
        napi_throw_error_def BoolToNValue_eq recording_engine_def zeros_def)
qed

text \<open>
  C6, amended: when the handle is not null, the key is not empty and no exception is
  pending once the arguments are converted, an exported encode function returns the host
  boolean of the success flag that the engine's \<^verbatim>\<open>set\<close> returned, and an exported
  decode function of a boolean or numeric type returns the host value (a boolean, a
  Number or a BigInt) of what the engine's \<^verbatim>\<open>get\<close> returned for that key and the
  converted default; the default is the native value of the third argument when that is
  a host value of the type.
\<close>

theorem returned_value_translates_engine_result:
  assumes kv: "kv = NValueToUInt64 (ind_handle g) (arg info 0)"
    and key: "NValueToString p (ind_key_size g) env (arg info 1) False = (key, env1)"
    and guard: "kv \<noteq> 0" "key \<noteq> []"
    and expiration: "expiration =
      (if arg info 3 = NV_undefined then None
       else Some (NValueToUInt32 (ind_expiration g) (arg info 3)))"
    and no_exception: "\<not> exception_pending env1"
  shows
    "fst (encodeBool eng p g env info st) =
       NV_boolean (fst (set_bool eng kv (NValueToBool (ind_bool g) (arg info 2)) key expiration st)) \<and>
     fst (encodeInt32 eng p g env info st) =
       NV_boolean (fst (set_int32 eng kv (NValueToInt32 (ind_int32 g) (arg info 2)) key expiration st)) \<and>
     fst (encodeUInt32 eng p g env info st) =
       NV_boolean (fst (set_uint32 eng kv (NValueToUInt32 (ind_uint32 g) (arg info 2)) key expiration st)) \<and>
     fst (encodeInt64 eng p g env info st) =
       NV_boolean (fst (set_int64 eng kv (NValueToInt64 (ind_int64 g) (arg info 2)) key expiration st)) \<and>
     fst (encodeUInt64 eng p g env info st) =
       NV_boolean (fst (set_uint64 eng kv (NValueToUInt64 (ind_uint64 g) (arg info 2)) key expiration st)) \<and>
     fst (encodeDouble eng p g env info st) =
       NV_boolean (fst (set_double eng kv (NValueToDouble (ind_double g) (arg info 2)) key expiration st)) \<and>
     (\<not> exception_pending (snd (NValueToString p (ind_value_size g) env1 (arg info 2) False)) \<longrightarrow>
       fst (encodeString eng p g env info st) =
       NV_boolean (fst (set_string eng kv (fst (NValueToString p (ind_value_size g) env1 (arg info 2) False)) key expiration st))) \<and>
     fst (encodeBytes eng p g env info st) =
       NV_boolean (fst (set_bytes eng kv (NValueToMMBuffer (arg info 2) False) key expiration st)) \<and>
     fst (decodeBool eng p g env info st) =
       NV_boolean (fst (getBool eng kv key (NValueToBool (ind_bool g) (arg info 2)) st)) \<and>
     fst (decodeInt32 eng p g env info st) =
       NV_number (DNum (of_int (sint (fst (getInt32 eng kv key (NValueToInt32 (ind_int32 g) (arg info 2)) st))))) \<and>
     fst (decodeUInt32 eng p g env info st) =
       NV_number (DNum (of_int (uint (fst (getUInt32 eng kv key (NValueToUInt32 (ind_uint32 g) (arg info 2)) st))))) \<and>
     fst (decodeInt64 eng p g env info st) =
       NV_bigint (sint (fst (getInt64 eng kv key (NValueToInt64 (ind_int64 g) (arg info 2)) st))) \<and>
     fst (decodeUInt64 eng p g env info st) =
       NV_bigint (uint (fst (getUInt64 eng kv key (NValueToUInt64 (ind_uint64 g) (arg info 2)) st))) \<and>
     fst (decodeDouble eng p g env info st) =
       NV_number (fst (getDouble eng kv key (NValueToDouble (ind_double g) (arg info 2)) st)) \<and>
     (arg info 2 = NV_boolean b \<longrightarrow>
       fst (decodeBool eng p g env info st) =
       NV_boolean (fst (getBool eng kv key (b) st))) \<and>
     (arg info 2 = NV_number x \<longrightarrow>
       fst (decodeInt32 eng p g env info st) =
       NV_number (DNum (of_int (sint (fst (getInt32 eng kv key (word_of_int (double_trunc x)) st)))))) \<and>
     (arg info 2 = NV_number x \<longrightarrow>
       fst (decodeUInt32 eng p g env info st) =
       NV_number (DNum (of_int (uint (fst (getUInt32 eng kv key (word_of_int (double_trunc x)) st)))))) \<and>
     (arg info 2 = NV_bigint n \<longrightarrow>
       fst (decodeInt64 eng p g env info st) =
       NV_bigint (sint (fst (getInt64 eng kv key (word_of_int n) st)))) \<and>
     (arg info 2 = NV_bigint n \<longrightarrow>
       fst (decodeUInt64 eng p g env info st) =
       NV_bigint (uint (fst (getUInt64 eng kv key (word_of_int n) st)))) \<and>
     (arg info 2 = NV_number x \<longrightarrow>
       fst (decodeDouble eng p g env info st) =
       NV_number (fst (getDouble eng kv key (x) st)))"
  using kv guard expiration no_exception
  by (simp add: encodeBool_run [OF key] encodeInt32_run [OF key] encodeUInt32_run [OF key] encodeInt64_run [OF key] encodeUInt64_run [OF key] encodeDouble_run [OF key] encodeString_run [OF key] encodeBytes_run [OF key]
      decodeBool_run [OF key] decodeInt32_run [OF key] decodeUInt32_run [OF key] decodeInt64_run [OF key] decodeUInt64_run [OF key] decodeDouble_run [OF key]
      NValueToBool_def NValueToInt32_def NValueToUInt32_def NValueToInt64_def
      NValueToUInt64_def NValueToDouble_def stored_def
      Int32ToNValue_def UInt32ToNValue_def Int64ToNValue_def UInt64ToNValue_def
      DoubleToNValue_def napi_create_int32_def napi_create_uint32_def
      napi_create_bigint_int64_def napi_create_bigint_uint64_def napi_create_double_def
      double_of_int32_def double_of_uint32_def BoolToNValue_eq)

text \<open>
  C8, as stated, fails in two places. A key that is no host string converts to the
  empty string, but the conversion throws, and \<^verbatim>\<open>BoolToNValue\<close>, called with the
  exception pending, returns what its local held, here the null handle, and not the
  host boolean false. And a decode function of a numeric type returns the default
  converted to the type and back, which is not the argument when the type cannot hold
  it: 3.5 comes back from \<^verbatim>\<open>decodeInt32\<close> as 3.
\<close>

theorem guard_failure_other_results:
  "encodeBool (recording_engine 2) libcxx zeros env_clear
     [NV_bigint 7, NV_number (DNum 123), NV_boolean True] [] =
   (NV_nullptr, \<lparr>exception_pending = True\<rparr>, []) \<and>
   decodeInt32 (recording_engine 2) libcxx zeros env_clear
     [NV_bigint 0, NV_string ''k'', NV_number (DNum (7 / 2))] [] =
   (NV_number (DNum 3), env_clear, [])"
proof -
  have key1: "NValueToString libcxx (ind_key_size zeros) env_clear
      (arg [NV_bigint 7, NV_number (DNum 123), NV_boolean True] 1) False =
      ([], \<lparr>exception_pending = True\<rparr>)"
    by (simp add: arg_def NValueToString_number env_clear_def napi_throw_error_def)
  have key2: "NValueToString libcxx (ind_key_size zeros) env_clear
      (arg [NV_bigint 0, NV_string ''k'', NV_number (DNum (7 / 2))] 1) False =
      (''k'', env_clear)"
    by (simp add: arg_def NValueToString_fits libcxx_def libcxx_capacity_def)
  have floor: "\<lfloor>7 / 2 :: rat\<rfloor> = 3"
    by (simp add: floor_unique)
  have "encodeBool (recording_engine 2) libcxx zeros env_clear
     [NV_bigint 7, NV_number (DNum 123), NV_boolean True] [] =
   (NV_nullptr, \<lparr>exception_pending = True\<rparr>, [])"
    by (subst encodeBool_run [OF key1])
      (simp add: arg_def NValueToUInt64_def stored_def BoolToNValue_eq zeros_def)
  moreover have "decodeInt32 (recording_engine 2) libcxx zeros env_clear
     [NV_bigint 0, NV_string ''k'', NV_number (DNum (7 / 2))] [] =
   (NV_number (DNum 3), env_clear, [])"
    by (subst decodeInt32_run [OF key2])
      (simp add: arg_def NValueToUInt64_def NValueToInt32_def stored_def zeros_def floor
        Int32ToNValue_def napi_create_int32_def double_of_int32_def)
  ultimately show ?thesis by simp
qed

text \<open>
  C8, amended: when the handle converts to null or the key converts to the empty string,
  no exported encode or decode function calls the engine: the state of the engine is
  the one before the call. When moreover no exception is pending after the conversion
  of the key (the key argument was a host string), an exported encode function returns
  the host boolean false. An exported decode function of a boolean or numeric type
  returns the default converted to the type and back to a host value: for a host
  boolean, a host Number given to \<^verbatim>\<open>decodeDouble\<close>, and an integer within the range of
  the type (a Number for the 32-bit types, a BigInt for the 64-bit types) that is the
  third argument itself. \<^verbatim>\<open>decodeString\<close> and \<^verbatim>\<open>decodeBytes\<close> return their third
  argument itself.
\<close>

theorem guard_failure_skips_engine:
  assumes kv: "kv = NValueToUInt64 (ind_handle g) (arg info 0)"
    and key: "NValueToString p (ind_key_size g) env (arg info 1) False = (key, env1)"
    and guard: "kv = 0 \<or> key = []"
  shows
    "list_all (\<lambda>f. snd (f eng p g env info st) = (env1, st))
         [encodeBool, encodeInt32, encodeUInt32, encodeInt64, encodeUInt64,
          encodeDouble, encodeString, encodeBytes, decodeBool, decodeInt32,
          decodeUInt32, decodeInt64, decodeUInt64, decodeDouble, decodeString,
          decodeBytes] \<and>
     (\<not> exception_pending env1 \<longrightarrow>
       list_all (\<lambda>f. fst (f eng p g env info st) = NV_boolean False)
         [encodeBool, encodeInt32, encodeUInt32, encodeInt64, encodeUInt64,
          encodeDouble, encodeString, encodeBytes]) \<and>
     (\<not> exception_pending env1 \<longrightarrow> arg info 2 = NV_boolean b \<longrightarrow>
       fst (decodeBool eng p g env info st) = arg info 2) \<and>
     (arg info 2 = NV_number x \<longrightarrow>
       fst (decodeInt32 eng p g env info st) =
       NV_number (DNum (of_int (sint (word_of_int (double_trunc x) :: int32_t))))) \<and>
     (arg info 2 = NV_number x \<longrightarrow>
       fst (decodeUInt32 eng p g env info st) =
       NV_number (DNum (of_int (uint (word_of_int (double_trunc x) :: uint32_t))))) \<and>
     (arg info 2 = NV_bigint n \<longrightarrow>
       fst (decodeInt64 eng p g env info st) =
       NV_bigint (sint (word_of_int n :: int64_t))) \<and>
     (arg info 2 = NV_bigint n \<longrightarrow>
       fst (decodeUInt64 eng p g env info st) =
       NV_bigint (uint (word_of_int n :: uint64_t))) \<and>
     (arg info 2 = NV_number (DNum (of_int i)) \<longrightarrow> - (2 ^ 31) \<le> i \<longrightarrow> i < 2 ^ 31 \<longrightarrow>
       fst (decodeInt32 eng p g env info st) = arg info 2) \<and>
     (arg info 2 = NV_number (DNum (of_int i)) \<longrightarrow> 0 \<le> i \<longrightarrow> i < 2 ^ 32 \<longrightarrow>
       fst (decodeUInt32 eng p g env info st) = arg info 2) \<and>
     (arg info 2 = NV_bigint i \<longrightarrow> - (2 ^ 63) \<le> i \<longrightarrow> i < 2 ^ 63 \<longrightarrow>
       fst (decodeInt64 eng p g env info st) = arg info 2) \<and>
     (arg info 2 = NV_bigint i \<longrightarrow> 0 \<le> i \<longrightarrow> i < 2 ^ 64 \<longrightarrow>
       fst (decodeUInt64 eng p g env info st) = arg info 2) \<and>
     (arg info 2 = NV_number x \<longrightarrow> fst (decodeDouble eng p g env info st) = arg info 2) \<and>
     fst (decodeString eng p g env info st) = arg info 2 \<and>
     fst (decodeBytes eng p g env info st) = arg info 2"
proof -
  from kv guard have guard': "\<not> (NValueToUInt64 (ind_handle g) (arg info 0) \<noteq> 0 \<and> key \<noteq> [])"
    by auto
  note runs = encodeBool_run [OF key] encodeInt32_run [OF key] encodeUInt32_run [OF key] encodeInt64_run [OF key] encodeUInt64_run [OF key] encodeDouble_run [OF key] encodeString_run [OF key] encodeBytes_run [OF key]
    decodeBool_run [OF key] decodeInt32_run [OF key] decodeUInt32_run [OF key] decodeInt64_run [OF key] decodeUInt64_run [OF key] decodeDouble_run [OF key] decodeString_run [OF key] decodeBytes_run [OF key]
  have skip:
    "encodeBool eng p g env info st =
       (BoolToNValue (ind_resultBool g) env1 False, env1, st)"
    "encodeInt32 eng p g env info st =
       (BoolToNValue (ind_resultBool g) env1 False, env1, st)"
    "encodeUInt32 eng p g env info st =
       (BoolToNValue (ind_resultBool g) env1 False, env1, st)"
    "encodeInt64 eng p g env info st =
       (BoolToNValue (ind_resultBool g) env1 False, env1, st)"
    "encodeUInt64 eng p g env info st =
       (BoolToNValue (ind_resultBool g) env1 False, env1, st)"
    "encodeDouble eng p g env info st =
       (BoolToNValue (ind_resultBool g) env1 False, env1, st)"
    "encodeString eng p g env info st =
       (BoolToNValue (ind_resultBool g) env1 False, env1, st)"
    "encodeBytes eng p g env info st =
       (BoolToNValue (ind_resultBool g) env1 False, env1, st)"
    "decodeBool eng p g env info st =
       (BoolToNValue (ind_resultBool g) env1 (NValueToBool (ind_bool g) (arg info 2)), env1, st)"
    "decodeInt32 eng p g env info st =
       (Int32ToNValue (NValueToInt32 (ind_int32 g) (arg info 2)), env1, st)"
    "decodeUInt32 eng p g env info st =
       (UInt32ToNValue (NValueToUInt32 (ind_uint32 g) (arg info 2)), env1, st)"
    "decodeInt64 eng p g env info st =
       (Int64ToNValue (NValueToInt64 (ind_int64 g) (arg info 2)), env1, st)"
    "decodeUInt64 eng p g env info st =
       (UInt64ToNValue (NValueToUInt64 (ind_uint64 g) (arg info 2)), env1, st)"
    "decodeDouble eng p g env info st =
       (DoubleToNValue (NValueToDouble (ind_double g) (arg info 2)), env1, st)"
    "decodeString eng p g env info st = (arg info 2, env1, st)"
    "decodeBytes eng p g env info st = (arg info 2, env1, st)"
    using guard' by (simp_all only: runs if_False)
  show ?thesis
    by (simp add: skip NValueToBool_def NValueToInt32_def NValueToUInt32_def NValueToInt64_def
      NValueToUInt64_def NValueToDouble_def stored_def
      Int32ToNValue_def UInt32ToNValue_def Int64ToNValue_def UInt64ToNValue_def
      DoubleToNValue_def napi_create_int32_def napi_create_uint32_def
      napi_create_bigint_int64_def napi_create_bigint_uint64_def napi_create_double_def
      double_of_int32_def double_of_uint32_def BoolToNValue_eq
      sint_in_range32 sint_in_range64 uint_in_range32 uint_in_range64)
qed


subsection \<open>The theorems at concrete calls\<close>

text \<open>
  The calls below go to the recording engine (or to the one whose \<^verbatim>\<open>set\<close> fails), on
  libc++, with no exception pending: the handle is 7 (or null), the key is \<open>k\<close>.
\<close>

lemma witness_handle:
  "(7 :: uint64_t) = NValueToUInt64 (ind_handle zeros) (arg (NV_bigint 7 # rest) 0)"
  by (simp add: NValueToUInt64_def stored_def arg_def)

lemma witness_null_handle:
  "(0 :: uint64_t) = NValueToUInt64 (ind_handle zeros) (arg (NV_bigint 0 # rest) 0)"
  by (simp add: NValueToUInt64_def stored_def arg_def)

lemma witness_key:
  "NValueToString libcxx (ind_key_size zeros) env_clear (arg (a # NV_string ''k'' # rest) 1) False =
     (''k'', env_clear)"
  by (simp add: arg_def NValueToString_fits libcxx_def libcxx_capacity_def)

lemma witness_no_expiration:
  "None =
     (if arg [a, b, c] 3 = NV_undefined then None
      else Some (NValueToUInt32 (ind_expiration zeros) (arg [a, b, c] 3)))"
  by (simp add: arg_def)


lemma witness_no_exception: "\<not> exception_pending env_clear"
  by (simp add: env_clear_def)

theorem encode_decode_single_engine_call_witness:
  "snd (snd (encodeBool (recording_engine 2) libcxx zeros env_clear
      [NV_bigint 7, NV_string ''k'', NV_boolean True] [])) =
     [Call_set 7 (V_bool True) ''k'' None] \<and>
   snd (snd (decodeString (recording_engine 2) libcxx zeros env_clear
      [NV_bigint 7, NV_string ''k'', NV_boolean True] [])) =
     [Call_getString 7 ''k'']"
  using encode_decode_single_engine_call
    [where info = "[NV_bigint 7, NV_string ''k'', NV_boolean True]"
       and eng = "recording_engine 2" and st = "[]" and g = zeros and p = libcxx,
     OF witness_handle witness_key _ _ witness_no_expiration]
  by (simp add: recording_engine_def arg_def NValueToBool_def stored_def)

theorem returned_value_translates_engine_result_witness:
  "fst (encodeBool (recording_engine 2) libcxx zeros env_clear
      [NV_bigint 7, NV_string ''k'', NV_boolean True] []) = NV_boolean True \<and>
   fst (encodeBool refusing_engine libcxx zeros env_clear
      [NV_bigint 7, NV_string ''k'', NV_boolean True] []) = NV_boolean False \<and>
   fst (encodeString refusing_engine libcxx zeros env_clear
      [NV_bigint 7, NV_string ''k'', NV_string ''v''] []) = NV_boolean False \<and>
   fst (decodeBool (recording_engine 2) libcxx zeros env_clear
      [NV_bigint 7, NV_string ''k'', NV_boolean True] []) = NV_boolean True \<and>
   fst (decodeInt32 (recording_engine 2) libcxx zeros env_clear
      [NV_bigint 7, NV_string ''k'', NV_number (DNum (- 5))] []) = NV_number (DNum (- 5)) \<and>
   fst (decodeUInt32 (recording_engine 2) libcxx zeros env_clear
      [NV_bigint 7, NV_string ''k'', NV_number (DNum 5)] []) = NV_number (DNum 5) \<and>
   fst (decodeDouble (recording_engine 2) libcxx zeros env_clear
      [NV_bigint 7, NV_string ''k'', NV_number (DNum (7 / 2))] []) = NV_number (DNum (7 / 2)) \<and>
   fst (decodeInt64 (recording_engine 2) libcxx zeros env_clear
      [NV_bigint 7, NV_string ''k'', NV_bigint (- 5)] []) = NV_bigint (- 5) \<and>
   fst (decodeUInt64 (recording_engine 2) libcxx zeros env_clear
      [NV_bigint 7, NV_string ''k'', NV_bigint 5] []) = NV_bigint 5"
  using
    returned_value_translates_engine_result
    [where info = "[NV_bigint 7, NV_string ''k'', NV_boolean True]"
       and eng = "recording_engine 2" and st = "[]" and g = zeros and p = libcxx,
     OF witness_handle witness_key _ _ witness_no_expiration witness_no_exception]
    returned_value_translates_engine_result
    [where info = "[NV_bigint 7, NV_string ''k'', NV_boolean True]"
       and eng = refusing_engine and st = "[]" and g = zeros and p = libcxx,
     OF witness_handle witness_key _ _ witness_no_expiration witness_no_exception]
    returned_value_translates_engine_result
    [where info = "[NV_bigint 7, NV_string ''k'', NV_string ''v'']"
       and eng = refusing_engine and st = "[]" and g = zeros and p = libcxx,
     OF witness_handle witness_key _ _ witness_no_expiration witness_no_exception]
    returned_value_translates_engine_result
    [where info = "[NV_bigint 7, NV_string ''k'', NV_number (DNum (- 5))]"
       and eng = "recording_engine 2" and st = "[]" and g = zeros and p = libcxx,
     OF witness_handle witness_key _ _ witness_no_expiration witness_no_exception]
    returned_value_translates_engine_result
    [where info = "[NV_bigint 7, NV_string ''k'', NV_number (DNum 5)]"
       and eng = "recording_engine 2" and st = "[]" and g = zeros and p = libcxx,
     OF witness_handle witness_key _ _ witness_no_expiration witness_no_exception]
    returned_value_translates_engine_result
    [where info = "[NV_bigint 7, NV_string ''k'', NV_number (DNum (7 / 2))]"
       and eng = "recording_engine 2" and st = "[]" and g = zeros and p = libcxx,
     OF witness_handle witness_key _ _ witness_no_expiration witness_no_exception]
    returned_value_translates_engine_result
    [where info = "[NV_bigint 7, NV_string ''k'', NV_bigint (- 5)]"
       and eng = "recording_engine 2" and st = "[]" and g = zeros and p = libcxx,
     OF witness_handle witness_key _ _ witness_no_expiration witness_no_exception]
    returned_value_translates_engine_result
    [where info = "[NV_bigint 7, NV_string ''k'', NV_bigint 5]"
       and eng = "recording_engine 2" and st = "[]" and g = zeros and p = libcxx,
     OF witness_handle witness_key _ _ witness_no_expiration witness_no_exception]
  by (simp add: recording_engine_def refusing_engine_def arg_def stored_def env_clear_def
      NValueToBool_def NValueToInt32_def NValueToUInt32_def NValueToDouble_def
      NValueToInt64_def NValueToUInt64_def NValueToString_fits libcxx_def libcxx_capacity_def)

theorem guard_failure_skips_engine_witness:
  "snd (encodeDouble (recording_engine 2) libcxx zeros env_clear
      [NV_bigint 0, NV_string ''k'', NV_number (DNum 5)] []) = (env_clear, []) \<and>
   fst (encodeDouble (recording_engine 2) libcxx zeros env_clear
      [NV_bigint 0, NV_string ''k'', NV_number (DNum 5)] []) = NV_boolean False \<and>
   decodeInt32 (recording_engine 2) libcxx zeros env_clear
      [NV_bigint 0, NV_string ''k'', NV_number (DNum 5)] [] =
     (NV_number (DNum 5), env_clear, []) \<and>
   decodeBytes (recording_engine 2) libcxx zeros env_clear
      [NV_bigint 0, NV_string ''k'', NV_number (DNum 5)] [] =
     (NV_number (DNum 5), env_clear, []) \<and>
   decodeBool (recording_engine 2) libcxx zeros env_clear
      [NV_bigint 0, NV_string ''k'', NV_boolean True] [] =
     (NV_boolean True, env_clear, []) \<and>
   decodeInt64 (recording_engine 2) libcxx zeros env_clear
      [NV_bigint 0, NV_string ''k'', NV_bigint (- 5)] [] =
     (NV_bigint (- 5), env_clear, [])"
proof -
  note at_number = guard_failure_skips_engine
    [where info = "[NV_bigint 0, NV_string ''k'', NV_number (DNum 5)]"
       and eng = "recording_engine 2" and st = "[]" and g = zeros and p = libcxx
       and x = "DNum 5" and i = 5,
     OF witness_null_handle witness_key]
  note at_boolean = guard_failure_skips_engine
    [where info = "[NV_bigint 0, NV_string ''k'', NV_boolean True]"
       and eng = "recording_engine 2" and st = "[]" and g = zeros and p = libcxx
       and b = True,
     OF witness_null_handle witness_key]
  note at_bigint = guard_failure_skips_engine
    [where info = "[NV_bigint 0, NV_string ''k'', NV_bigint (- 5)]"
       and eng = "recording_engine 2" and st = "[]" and g = zeros and p = libcxx
       and n = "- 5" and i = "- 5",
     OF witness_null_handle witness_key]
  have "arg [NV_bigint 0, NV_string ''k'', NV_number (DNum 5)] 2 = NV_number (DNum (of_int 5))"
    "arg [NV_bigint 0, NV_string ''k'', NV_boolean True] 2 = NV_boolean True"
    "arg [NV_bigint 0, NV_string ''k'', NV_bigint (- 5)] 2 = NV_bigint (- 5)"
    by (simp_all add: arg_def)
  with at_number at_boolean at_bigint show ?thesis
    by (simp add: prod_eq_iff env_clear_def)
qed


section \<open>The default instance\<close>

text \<open>
  C10, as stated, fails when the mode is not a host number: with no exception pending,
  \<^verbatim>\<open>getDefaultMMKV\<close> throws and returns the null handle, and it opens no instance,
  neither the encrypted one nor, as a fallback, the one without encryption.
\<close>

theorem getDefaultMMKV_mode_not_number:
  "getDefaultMMKV (recording_engine 2) libcxx zeros env_clear
     [NV_undefined, NV_string ''secret''] [] =
   (NV_nullptr, \<lparr>exception_pending = True\<rparr>, [])"
  by (simp add: getDefaultMMKV_def cb_info2 NAPI_CALL_RET_def arg_def env_clear_def
      napi_throw_error_def)

text \<open>
  C10, amended: when the mode argument is a host number, \<^verbatim>\<open>getDefaultMMKV\<close> tries the
  encrypted default instance only when the crypt key it converted from its second
  argument is not empty, which needs the argument to be defined; when it did not try, or
  the engine returned null, it opens the default instance without encryption with the
  same mode, after the attempt if there was one. The handle returned is the encrypted
  instance when one was obtained, and the instance without encryption otherwise.
\<close>

theorem getDefaultMMKV_opens:
  assumes mode: "arg info 0 = NV_number d" "mode = word_of_int (double_trunc d)"
    and crypt: "NValueToString p (ind_crypt_size g) env (arg info 1) True = (crypt, env2)"
    and enc: "enc = defaultMMKV eng mode (Some crypt) st"
  shows
    "(crypt \<noteq> [] \<longrightarrow> arg info 1 \<noteq> NV_undefined) \<and>
     getDefaultMMKV eng p g env info st =
       (if crypt \<noteq> [] \<and> fst enc \<noteq> 0 then (UInt64ToNValue (fst enc), env2, snd enc)
        else if crypt \<noteq> [] then
          (UInt64ToNValue (fst (defaultMMKV eng mode None (snd enc))), env2,
           snd (defaultMMKV eng mode None (snd enc)))
        else
          (UInt64ToNValue (fst (defaultMMKV eng mode None st)), env2,
           snd (defaultMMKV eng mode None st)))"
proof -
  have "crypt \<noteq> [] \<longrightarrow> arg info 1 \<noteq> NV_undefined"
    using crypt by (auto simp add: NValueToString_undefined)
  moreover have "getDefaultMMKV eng p g env info st =
       (if crypt \<noteq> [] \<and> fst enc \<noteq> 0 then (UInt64ToNValue (fst enc), env2, snd enc)
        else if crypt \<noteq> [] then
          (UInt64ToNValue (fst (defaultMMKV eng mode None (snd enc))), env2,
           snd (defaultMMKV eng mode None (snd enc)))
        else
          (UInt64ToNValue (fst (defaultMMKV eng mode None st)), env2,
           snd (defaultMMKV eng mode None st)))"
    using mode crypt enc
    by (simp add: getDefaultMMKV_def cb_info2 NAPI_CALL_RET_ok stored_def Let_def split_beta)
  ultimately show ?thesis by simp
qed

lemma witness_mode: "arg [NV_number (DNum 1), NV_string ''secret''] 0 = NV_number (DNum 1)"
  by (simp add: arg_def)

lemma witness_mode_value: "(1 :: int32_t) = word_of_int (double_trunc (DNum 1))"
  by simp

lemma witness_crypt:
  "NValueToString libcxx (ind_crypt_size zeros) env_clear
     (arg [NV_number (DNum 1), NV_string ''secret''] 1) True = (''secret'', env_clear)"
  by (simp add: arg_def NValueToString_fits libcxx_def libcxx_capacity_def)

theorem getDefaultMMKV_opens_witness:
  "getDefaultMMKV (recording_engine 0) libcxx zeros env_clear
     [NV_number (DNum 1), NV_string ''secret''] [] =
   (NV_bigint 1, env_clear,
    [Call_defaultMMKV 1 (Some ''secret''), Call_defaultMMKV 1 None]) \<and>
   getDefaultMMKV (recording_engine 2) libcxx zeros env_clear
     [NV_number (DNum 1), NV_string ''secret''] [] =
   (NV_bigint 2, env_clear, [Call_defaultMMKV 1 (Some ''secret'')])"
  using getDefaultMMKV_opens
    [where eng = "recording_engine 0" and st = "[]", OF witness_mode witness_mode_value witness_crypt refl]
    getDefaultMMKV_opens
    [where eng = "recording_engine 2" and st = "[]", OF witness_mode witness_mode_value witness_crypt refl]
  by (simp add: recording_engine_def UInt64ToNValue_def napi_create_bigint_uint64_def)

text \<open>
  Whenever the mode is no host number and no exception is pending, the function throws
  and returns the null handle, and the engine is not called.
\<close>

lemma getDefaultMMKV_mode_rejected:
  assumes "fst (napi_get_value_int32 (arg info 0)) \<noteq> napi_ok"
    and "\<not> exception_pending env"
  shows "getDefaultMMKV eng p g env info st = (NV_nullptr, napi_throw_error env, st)"
  using assms
  by (simp add: getDefaultMMKV_def cb_info2 NAPI_CALL_RET_def)

section \<open>Determinism of the conversion layer\<close>

text \<open>
  C7: the result of a conversion is not always fixed by its argument. \<^verbatim>\<open>NValueToInt32\<close>
  of undefined, and \<^verbatim>\<open>NValueToBool\<close> of a number, return what the local \<^verbatim>\<open>result\<close>
  held before the call, and \<^verbatim>\<open>BoolToNValue\<close> called while an exception is pending
  returns what its local \<^verbatim>\<open>resultBool\<close> held: two calls on the same argument return
  different values.
\<close>

theorem conversion_reads_indeterminate_local:
  "NValueToInt32 0 NV_undefined = 0 \<and>
   NValueToInt32 1 NV_undefined = 1 \<and>
   NValueToBool False (NV_number (DNum 1)) = False \<and>
   NValueToBool True (NV_number (DNum 1)) = True \<and>
   BoolToNValue NV_null \<lparr>exception_pending = True\<rparr> True = NV_null \<and>
   BoolToNValue NV_undefined \<lparr>exception_pending = True\<rparr> True = NV_undefined"
  by (simp add: NValueToInt32_def NValueToBool_def stored_def BoolToNValue_eq)

text \<open>
  On a host value of the type it expects, a host-to-native conversion returns a value
  fixed by the host value (and, for a string, by the capacity the C++ library gives);
  a native-to-host conversion returns a host value fixed by the native value, except
  \<^verbatim>\<open>BoolToNValue\<close> while an exception is pending.
\<close>

lemma conversion_of_expected_type:
  "NValueToBool ub (NV_boolean b) = b \<and>
   NValueToInt32 ui (NV_number d) = word_of_int (double_trunc d) \<and>
   NValueToUInt32 uj (NV_number d) = word_of_int (double_trunc d) \<and>
   NValueToDouble ud (NV_number d) = d \<and>
   NValueToInt64 uk (NV_bigint n) = word_of_int n \<and>
   NValueToUInt64 ul (NV_bigint n) = word_of_int n \<and>
   NValueToString p us env (NV_string s) m =
     (fst (NValueToString p us' env' (NV_string s) m'), env) \<and>
   NValueToString p us env NV_undefined True = ([], env) \<and>
   NValueToMMBuffer (NV_arraybuffer bs) m = \<lparr>getPtr = bs, copyFlag = MMBufferNoCopy\<rparr> \<and>
   NValueToMMBuffer NV_undefined True = MMBuffer_empty \<and>
   IsNValueUndefined v = (v = NV_undefined) \<and>
   BoolToNValue u env b = (if exception_pending env then u else NV_boolean b) \<and>
   Int32ToNValue i = NV_number (double_of_int32 i) \<and>
   UInt32ToNValue j = NV_number (double_of_uint32 j) \<and>
   DoubleToNValue d = NV_number d \<and>
   Int64ToNValue k = NV_bigint (sint k) \<and>
   UInt64ToNValue l = NV_bigint (uint l) \<and>
   StringToNValue s = NV_string s \<and>
   MMBufferToNValue buf = NV_arraybuffer (getPtr buf)"
proof -
  have to_native:
    "NValueToBool ub (NV_boolean b) = b \<and>
     NValueToInt32 ui (NV_number d) = word_of_int (double_trunc d) \<and>
     NValueToUInt32 uj (NV_number d) = word_of_int (double_trunc d) \<and>
     NValueToDouble ud (NV_number d) = d \<and>
     NValueToInt64 uk (NV_bigint n) = word_of_int n \<and>
     NValueToUInt64 ul (NV_bigint n) = word_of_int n"
    by (simp add: NValueToBool_def NValueToInt32_def NValueToUInt32_def NValueToDouble_def
        NValueToInt64_def NValueToUInt64_def stored_def)
  have strings:
    "NValueToString p us env (NV_string s) m =
       (fst (NValueToString p us' env' (NV_string s) m'), env) \<and>
     NValueToString p us env NV_undefined True = ([], env)"
    by (simp add: NValueToString_def stored_def IsNValueUndefined_iff NAPI_CALL_RET_ok Let_def)
  have buffers:
    "NValueToMMBuffer (NV_arraybuffer bs) m = \<lparr>getPtr = bs, copyFlag = MMBufferNoCopy\<rparr> \<and>
     NValueToMMBuffer NV_undefined True = MMBuffer_empty \<and>
     MMBufferToNValue buf = NV_arraybuffer (getPtr buf)"
    by (simp add: NValueToMMBuffer_def MMBufferToNValue_def napi_create_arraybuffer_def
        memcpy_def mmbuffer_length_def IsNValueUndefined_iff)
  have to_host:
    "Int32ToNValue i = NV_number (double_of_int32 i) \<and>
     UInt32ToNValue j = NV_number (double_of_uint32 j) \<and>
     DoubleToNValue d = NV_number d \<and>
     Int64ToNValue k = NV_bigint (sint k) \<and>
     UInt64ToNValue l = NV_bigint (uint l) \<and>
     StringToNValue s = NV_string s"
    by (simp add: Int32ToNValue_def UInt32ToNValue_def DoubleToNValue_def Int64ToNValue_def
        UInt64ToNValue_def StringToNValue_def napi_create_int32_def napi_create_uint32_def
        napi_create_double_def napi_create_bigint_int64_def napi_create_bigint_uint64_def
        napi_create_string_utf8_def)
  show ?thesis
    using to_native strings buffers to_host
    by (simp add: IsNValueUndefined_iff BoolToNValue_eq)
qed

section \<open>Registration of the module\<close>

text \<open>
  C5: the library constructor \<^verbatim>\<open>RegisterMMKVModule\<close> registers the module \<open>mmkv\<close> with
  the host, with \<^verbatim>\<open>Init\<close> as its register function; \<^verbatim>\<open>Init\<close> defines on a new
  exports object exactly nineteen methods: \<open>initialize\<close>, \<open>version\<close>,
  \<open>getDefaultMMKV\<close>, and an encode and a decode function for each of bool, int32,
  uint32, int64, uint64, double, string and bytes, each name bound to the native entry
  point of that name.
\<close>

theorem dispatch_table_registered:
  "RegisterMMKVModule registered = registered @ [mmkvModule] \<and>
   nm_modname mmkvModule = ''mmkv'' \<and>
   nm_register_func mmkvModule = Init \<and>
   card (dom (Init Map.empty)) = 19 \<and>
   Init Map.empty ''initialize'' = Some Fn_initialize \<and>
   Init Map.empty ''version'' = Some Fn_version \<and>
   Init Map.empty ''getDefaultMMKV'' = Some Fn_getDefaultMMKV \<and>
   Init Map.empty ''encodeBool'' = Some Fn_encodeBool \<and>
   Init Map.empty ''decodeBool'' = Some Fn_decodeBool \<and>
   Init Map.empty ''encodeInt32'' = Some Fn_encodeInt32 \<and>
   Init Map.empty ''decodeInt32'' = Some Fn_decodeInt32 \<and>
   Init Map.empty ''encodeUInt32'' = Some Fn_encodeUInt32 \<and>
   Init Map.empty ''decodeUInt32'' = Some Fn_decodeUInt32 \<and>
   Init Map.empty ''encodeInt64'' = Some Fn_encodeInt64 \<and>
   Init Map.empty ''decodeInt64'' = Some Fn_decodeInt64 \<and>
   Init Map.empty ''encodeUInt64'' = Some Fn_encodeUInt64 \<and>
   Init Map.empty ''decodeUInt64'' = Some Fn_decodeUInt64 \<and>
   Init Map.empty ''encodeDouble'' = Some Fn_encodeDouble \<and>
   Init Map.empty ''decodeDouble'' = Some Fn_decodeDouble \<and>
   Init Map.empty ''encodeString'' = Some Fn_encodeString \<and>
   Init Map.empty ''decodeString'' = Some Fn_decodeString \<and>
   Init Map.empty ''encodeBytes'' = Some Fn_encodeBytes \<and>
   Init Map.empty ''decodeBytes'' = Some Fn_decodeBytes"
proof -
  have module: "RegisterMMKVModule registered = registered @ [mmkvModule] \<and>
      nm_modname mmkvModule = ''mmkv'' \<and> nm_register_func mmkvModule = Init"
    by (simp add: RegisterMMKVModule_def napi_module_register_def mmkvModule_def)
  have table: "Init Map.empty =
     (\<lambda>name. map_of (map (\<lambda>d. (utf8name d, method_ptr d)) desc) name)"
    by (rule ext) (simp add: Init_def napi_define_properties_def desc_def)
  have count: "card (dom (Init Map.empty)) = 19"
    by (simp add: Init_def napi_define_properties_def desc_def)
  show ?thesis
    using module count by (simp add: table desc_def)
qed

end
